theory Spec2Isabelle
  imports Complex_Main "HOL-Library.Multiset"
begin

section \<open>JavaScript strings\<close>

text \<open>
  A JavaScript string is modelled as a \<^typ>\<open>string\<close>: a list of code units below 256
  (the Latin-1 range).  The white space of \<^verbatim>\<open>String.prototype.trim\<close> and of the regular
  expression class \<^verbatim>\<open>\s\<close> in that range is TAB, LF, VT, FF, CR, SPACE and NBSP; the class
  \<^verbatim>\<open>\d\<close> is the ten ASCII digits.
\<close>

definition is_space :: "char \<Rightarrow> bool" where
  "is_space c \<longleftrightarrow> (of_char c :: nat) \<in> {9, 10, 11, 12, 13, 32, 160}"

definition is_digit :: "char \<Rightarrow> bool" where
  "is_digit c \<longleftrightarrow> (48 :: nat) \<le> of_char c \<and> (of_char c :: nat) \<le> 57"

definition LF :: char where
  "LF = CHR 0x0A"

definition CR :: char where
  "CR = CHR 0x0D"

text \<open>\<^verbatim>\<open>s.trim()\<close>\<close>

definition trim :: "string \<Rightarrow> string" where
  "trim s = rev (dropWhile is_space (rev (dropWhile is_space s)))"

text \<open>
  \<^verbatim>\<open>s.split(/\r?\n/)\<close>: the separator is a line feed, together with the carriage return
  right before it when there is one.  The accumulator holds the current line, reversed.
\<close>

fun split_lines_acc :: "string \<Rightarrow> string \<Rightarrow> string list" where
  "split_lines_acc acc [] = [rev acc]"
| "split_lines_acc acc (c # cs) =
     (if c = LF then
        (case acc of
           a # acc' \<Rightarrow> (if a = CR then rev acc' else rev acc) # split_lines_acc [] cs
         | [] \<Rightarrow> [] # split_lines_acc [] cs)
      else split_lines_acc (c # acc) cs)"

definition split_lines :: "string \<Rightarrow> string list" where
  "split_lines s = split_lines_acc [] s"

text \<open>\<^verbatim>\<open>xs.join(' ')\<close>\<close>

fun join_space :: "string list \<Rightarrow> string" where
  "join_space [] = []"
| "join_space [x] = x"
| "join_space (x # y # ys) = x @ '' '' @ join_space (y # ys)"

text \<open>\<^verbatim>\<open>parseInt(ds, 10)\<close> on a string of decimal digits.\<close>

definition digit_val :: "char \<Rightarrow> nat" where
  "digit_val c = of_char c - 48"

definition parseInt :: "string \<Rightarrow> nat" where
  "parseInt ds = foldl (\<lambda>n c. 10 * n + digit_val c) 0 ds"

text \<open>
  \<^verbatim>\<open>s.match(/^(\d+)/)\<close>: the longest run of digits at the start, when it is not empty.
\<close>

definition match_leading_digits :: "string \<Rightarrow> string option" where
  "match_leading_digits s =
     (let ds = takeWhile is_digit s in if ds = [] then None else Some ds)"

text \<open>
  \<^verbatim>\<open>s.match(/(\d+)/)\<close>: the leftmost run of digits anywhere in the string.
\<close>

definition match_any_digits :: "string \<Rightarrow> string option" where
  "match_any_digits s = match_leading_digits (dropWhile (\<lambda>c. \<not> is_digit c) s)"

text \<open>
  \<^verbatim>\<open>a || b\<close> on strings: the empty string is falsy.
\<close>

definition or_else :: "string \<Rightarrow> string \<Rightarrow> string" where
  "or_else a b = (if a = [] then b else a)"

section \<open>Errors\<close>

datatype js_error = Error string | TypeError string

section \<open>The classification engine (lib/ai.ts)\<close>

record category =
  cat_id :: string
  cat_name :: string
  cat_description :: "string option"

subsection \<open>The LLM tie-break: parsing the reply\<close>

record llm_choice =
  llm_categoryId :: "string option"
  llm_reason :: "string option"

text \<open>
  \<^verbatim>\<open>categories[idx - 1].id\<close>: reading \<^verbatim>\<open>.id\<close> of a missing element throws a TypeError.
\<close>

definition category_id_at :: "category list \<Rightarrow> nat \<Rightarrow> js_error + string" where
  "category_id_at categories i =
     (if i < length categories then Inr (cat_id (categories ! i))
      else Inl (TypeError ''Cannot read properties of undefined (reading id)''))"

text \<open>
  The part of \<^verbatim>\<open>chooseCategoryWithLLM\<close> after the provider's reply has been extracted
  (the reply \<open>assistant\<close> is a non-empty string there).
\<close>

definition parse_llm_reply :: "string \<Rightarrow> category list \<Rightarrow> js_error + llm_choice" where
  "parse_llm_reply assistant categories =
     (let lines = split_lines (trim assistant);
          firstLine = hd lines;
          rest = tl lines
      in case match_leading_digits (trim firstLine) of
           None \<Rightarrow>
             (case match_any_digits assistant of
                None \<Rightarrow> Inr \<lparr>llm_categoryId = None, llm_reason = Some (trim assistant)\<rparr>
              | Some ds \<Rightarrow>
                  (let idx = parseInt ds in
                   if idx \<le> 0 \<or> idx > length categories
                   then Inr \<lparr>llm_categoryId = None, llm_reason = Some (trim assistant)\<rparr>
                   else (case category_id_at categories (idx - 1) of
                           Inl e \<Rightarrow> Inl e
                         | Inr i \<Rightarrow> Inr \<lparr>llm_categoryId = Some i,
                              llm_reason = Some (or_else (trim (join_space rest)) (trim assistant))\<rparr>)))
         | Some ds \<Rightarrow>
             (let idx = parseInt ds in
              if idx = 0
              then Inr \<lparr>llm_categoryId = None,
                     llm_reason = Some (or_else (trim (join_space rest)) ''model returned 0'')\<rparr>
              else if idx < 1 \<or> idx > length categories
              then Inr \<lparr>llm_categoryId = None, llm_reason = Some (trim assistant)\<rparr>
              else (case category_id_at categories (idx - 1) of
                      Inl e \<Rightarrow> Inl e
                    | Inr i \<Rightarrow> Inr \<lparr>llm_categoryId = Some i,
                         llm_reason = (let r = trim (join_space rest)
                                       in if r = [] then None else Some r)\<rparr>)))"

section \<open>JavaScript numbers\<close>

text \<open>
  A JavaScript number is an IEEE 754 binary64 value: not a number, an infinity, or a finite
  value, given here by the rational number it stands for.  The two zeros are one value: the
  code below compares with zero by \<^verbatim>\<open>===\<close>, which does not tell them apart, and divides only
  by a product of square roots, which is never the negative zero.
\<close>

datatype double = NaN | NInf | Fin rat | PInf

definition pow2 :: "int \<Rightarrow> rat" where
  "pow2 k = (if 0 \<le> k then 2 ^ nat k else 1 / 2 ^ nat (- k))"

text \<open>The number of binary digits of a positive integer.\<close>

function bits :: "int \<Rightarrow> int" where
  "bits n = (if n \<le> 0 then 0 else 1 + bits (n div 2))"
  by pat_completeness auto
termination
  by (relation "measure nat") auto

declare bits.simps [simp del]

text \<open>The exponent \<open>e\<close> of a positive rational \<open>a\<close>: \<open>2 ^ e \<le> a < 2 ^ (e + 1)\<close>.\<close>

definition exponent_of :: "rat \<Rightarrow> int" where
  "exponent_of a =
     (case quotient_of a of (n, d) \<Rightarrow>
        (let k = bits n - bits d
         in if pow2 k \<le> a then k else k - 1))"

text \<open>
  Rounding to the nearest, ties to even: \<open>f\<close> is the integer below the value \<open>t\<close> and
  \<open>h\<close> the point half way to the next integer.
\<close>

definition half_even :: "rat \<Rightarrow> rat \<Rightarrow> int \<Rightarrow> int" where
  "half_even t h f = (if t < h then f else if h < t then f + 1 else if even f then f else f + 1)"

text \<open>
  The value \<open>r * 2 ^ p\<close> with its sign, or the infinity when it is \<open>2 ^ 1024\<close> or more,
  that is, when \<open>r\<close> has \<open>1025 - p\<close> binary digits or more.
\<close>

definition scale :: "bool \<Rightarrow> int \<Rightarrow> int \<Rightarrow> double" where
  "scale positive r p =
     (if 1025 \<le> bits r + p then (if positive then PInf else NInf)
      else Fin (if positive then of_int r * pow2 p else - (of_int r * pow2 p)))"

text \<open>
  The double nearest to a rational: 53 significant binary digits for a normal value, a
  multiple of \<open>2 ^ (- 1074)\<close> for a subnormal one.
\<close>

definition rnd :: "rat \<Rightarrow> double" where
  "rnd x =
     (if x = 0 then Fin 0
      else
        (let a = \<bar>x\<bar>;
             p = max (exponent_of a) (- 1022) - 52;
             t = a / pow2 p;
             f = \<lfloor>t\<rfloor>
         in scale (0 < x) (half_even t (of_int f + 1 / 2) f) p))"

text \<open>The integer square root.\<close>

function isqrt :: "int \<Rightarrow> int" where
  "isqrt n =
     (if n < 2 then n
      else (let s = 2 * isqrt (n div 4) in if (s + 1) * (s + 1) \<le> n then s + 1 else s))"
  by pat_completeness auto
termination
  by (relation "measure nat") auto

declare isqrt.simps [simp del]

text \<open>The double nearest to the square root of a positive rational.\<close>

definition rnd_sqrt :: "rat \<Rightarrow> double" where
  "rnd_sqrt x =
     (let p = max (exponent_of x div 2) (- 1022) - 52;
          t = x / (pow2 p * pow2 p);
          f = isqrt \<lfloor>t\<rfloor>
      in scale True (half_even t ((of_int f + 1 / 2) * (of_int f + 1 / 2)) f) p)"

text \<open>The sign of a number that is not NaN.\<close>

fun sign_of :: "double \<Rightarrow> int" where
  "sign_of (Fin x) = (if 0 < x then 1 else if x < 0 then - 1 else 0)"
| "sign_of PInf = 1"
| "sign_of NInf = - 1"
| "sign_of NaN = 0"

definition infinity :: "int \<Rightarrow> double" where
  "infinity s = (if 0 < s then PInf else NInf)"

text \<open>\<^verbatim>\<open>a + b\<close>\<close>

fun js_add :: "double \<Rightarrow> double \<Rightarrow> double" where
  "js_add (Fin x) (Fin y) = rnd (x + y)"
| "js_add NaN b = NaN"
| "js_add a NaN = NaN"
| "js_add PInf NInf = NaN"
| "js_add NInf PInf = NaN"
| "js_add PInf b = PInf"
| "js_add a PInf = PInf"
| "js_add NInf b = NInf"
| "js_add a NInf = NInf"

text \<open>\<^verbatim>\<open>a * b\<close>: an infinity times zero is NaN.\<close>

fun js_mul :: "double \<Rightarrow> double \<Rightarrow> double" where
  "js_mul (Fin x) (Fin y) = rnd (x * y)"
| "js_mul NaN b = NaN"
| "js_mul a NaN = NaN"
| "js_mul a b = (if sign_of a * sign_of b = 0 then NaN else infinity (sign_of a * sign_of b))"

text \<open>\<^verbatim>\<open>a / b\<close>; a finite zero divisor is the positive zero.\<close>

fun js_div :: "double \<Rightarrow> double \<Rightarrow> double" where
  "js_div (Fin x) (Fin y) =
     (if y = 0 then (if x = 0 then NaN else infinity (sign_of (Fin x))) else rnd (x / y))"
| "js_div NaN b = NaN"
| "js_div a NaN = NaN"
| "js_div (Fin x) b = Fin 0"
| "js_div a (Fin y) = infinity (sign_of a * (if y < 0 then - 1 else 1))"
| "js_div a b = NaN"

text \<open>\<^verbatim>\<open>Math.sqrt(a)\<close>\<close>

fun js_sqrt :: "double \<Rightarrow> double" where
  "js_sqrt (Fin x) = (if x < 0 then NaN else if x = 0 then Fin 0 else rnd_sqrt x)"
| "js_sqrt PInf = PInf"
| "js_sqrt a = NaN"

text \<open>\<^verbatim>\<open>a < b\<close> and \<^verbatim>\<open>a >= b\<close>: false when either side is NaN.\<close>

fun js_less :: "double \<Rightarrow> double \<Rightarrow> bool" where
  "js_less NaN b = False"
| "js_less a NaN = False"
| "js_less (Fin x) (Fin y) = (x < y)"
| "js_less a NInf = False"
| "js_less NInf b = True"
| "js_less PInf b = False"
| "js_less a PInf = True"

definition js_ge :: "double \<Rightarrow> double \<Rightarrow> bool" where
  "js_ge a b \<longleftrightarrow> a \<noteq> NaN \<and> b \<noteq> NaN \<and> \<not> js_less a b"

text \<open>The number the literal \<^verbatim>\<open>0.72\<close> denotes.\<close>

definition default_threshold :: double where
  "default_threshold = rnd (72 / 100)"

subsection \<open>The AI provider\<close>

text \<open>
  The provider is an external HTTP service.  A request to it is modelled as an oracle that
  is asked with the number of requests made before (so that two requests with the same
  payload may be answered differently) and with the data the payload is built from.  The
  answer of a chat request is what \<^verbatim>\<open>detectProvider\<close>, \<^verbatim>\<open>postJson\<close> and
  \<^verbatim>\<open>extractAssistantText\<close> make of it: an exception (no provider configured, a non-OK or
  non-JSON response, a timeout), no text (\<^verbatim>\<open>null\<close>), or the assistant's text.  The answer
  of an embeddings request is what \<^verbatim>\<open>getEmbedding\<close> makes of it: an exception or a vector.
\<close>

text \<open>
  The last field is the engine's, not the provider's: the order in which
  \<^verbatim>\<open>Array.prototype.sort\<close> leaves an array for which the comparison function is not
  consistent (see \<open>sort_scores\<close> below), as a list of picks.
\<close>

record ai_provider =
  embeddings_request :: "nat \<Rightarrow> string \<Rightarrow> js_error + double list"
  classify_request :: "nat \<Rightarrow> string \<Rightarrow> category list \<Rightarrow> js_error + string option"
  summarize_request :: "nat \<Rightarrow> string \<Rightarrow> js_error + string option"
  date_now :: "nat \<Rightarrow> int"
  nan_sort_order :: "(string \<times> double) list \<Rightarrow> nat list"

datatype ai_call = EmbeddingsCall string | ClassifyChatCall | SummarizeChatCall

text \<open>
  The state of the module: the category embedding cache (\<^verbatim>\<open>categoryEmbeddingCache\<close>, from
  the category key to the embedding and the time it was stored) and the requests made so far.
\<close>

record ai_state =
  cache :: "string \<rightharpoonup> double list \<times> int"
  calls :: "ai_call list"

definition CACHE_TTL_MS :: int where
  "CACHE_TTL_MS = 1000 * 60 * 60 * 24"

definition llm_requests :: "ai_state \<Rightarrow> nat" where
  "llm_requests st = length (filter (\<lambda>c. c = ClassifyChatCall) (calls st))"

definition getEmbedding :: "ai_provider \<Rightarrow> string \<Rightarrow> ai_state \<Rightarrow> (js_error + double list) \<times> ai_state" where
  "getEmbedding P text st =
     (embeddings_request P (length (calls st)) text,
      st\<lparr>calls := calls st @ [EmbeddingsCall text]\<rparr>)"

subsection \<open>Cosine similarity\<close>

definition cosineSimilarity :: "double list \<Rightarrow> double list \<Rightarrow> double" where
  "cosineSimilarity a0 b0 =
     (let n = min (length a0) (length b0);
          a = (if length a0 \<noteq> length b0 then take n a0 else a0);
          b = (if length a0 \<noteq> length b0 then take n b0 else b0);
          dot = foldl (\<lambda>s (x, y). js_add s (js_mul x y)) (Fin 0) (zip a b);
          magA = foldl (\<lambda>s (x, y). js_add s (js_mul x x)) (Fin 0) (zip a b);
          magB = foldl (\<lambda>s (x, y). js_add s (js_mul y y)) (Fin 0) (zip a b)
      in if magA = Fin 0 \<or> magB = Fin 0 then Fin 0
         else js_div dot (js_mul (js_sqrt magA) (js_sqrt magB)))"

subsection \<open>The embedding stage\<close>

definition getCategoryEmbedding ::
  "ai_provider \<Rightarrow> string \<Rightarrow> string \<Rightarrow> ai_state \<Rightarrow> (js_error + double list) \<times> ai_state" where
  "getCategoryEmbedding P categoryKey text st =
     (let now = date_now P (length (calls st));
          fetch = (case getEmbedding P text st of
                     (Inl e, st') \<Rightarrow> (Inl e, st')
                   | (Inr embedding, st') \<Rightarrow>
                       (Inr embedding, st'\<lparr>cache := (cache st')(categoryKey \<mapsto> (embedding, now))\<rparr>))
      in case cache st categoryKey of
           Some (embedding, ts) \<Rightarrow> if now - ts < CACHE_TTL_MS then (Inr embedding, st) else fetch
         | None \<Rightarrow> fetch)"

definition category_text :: "category \<Rightarrow> string" where
  "category_text c =
     cat_name c @ [LF, LF] @ (case cat_description c of None \<Rightarrow> [] | Some d \<Rightarrow> d)"

text \<open>
  The loop over the categories; an exception of a request leaves the loop.
\<close>

fun category_scores ::
  "ai_provider \<Rightarrow> double list \<Rightarrow> category list \<Rightarrow> (string \<times> double) list \<Rightarrow> ai_state \<Rightarrow>
   (js_error + (string \<times> double) list) \<times> ai_state" where
  "category_scores P emailEmb [] scores st = (Inr scores, st)"
| "category_scores P emailEmb (c # cs) scores st =
     (case getCategoryEmbedding P (cat_id c) (category_text c) st of
        (Inl e, st') \<Rightarrow> (Inl e, st')
      | (Inr catEmb, st') \<Rightarrow>
          category_scores P emailEmb cs (scores @ [(cat_id c, cosineSimilarity emailEmb catEmb)]) st')"

record emb_result =
  emb_categoryId :: "string option"
  emb_scores :: "(string \<times> double) list"
  emb_topScore :: "double option"

text \<open>
  \<^verbatim>\<open>scores.sort((a, b) => b.score - a.score)\<close>.  For two doubles that are not NaN the
  difference \<open>b - a\<close> has the sign of the exact difference (a difference of two distinct
  doubles does not round to zero), or is NaN for two equal infinities, which the sort takes
  as 0: the comparison orders the scores by their values, the highest first, and the sort is
  stable.  When a score is NaN the comparison is not consistent and the order is the
  engine's: a permutation of the array.
\<close>

fun insert_score :: "string \<times> double \<Rightarrow> (string \<times> double) list \<Rightarrow> (string \<times> double) list" where
  "insert_score x [] = [x]"
| "insert_score x (y # ys) =
     (if js_less (snd x) (snd y) then y # insert_score x ys else x # y # ys)"

text \<open>The permutation that takes, at each step, the element a pick points at.\<close>

function permute_by :: "nat list \<Rightarrow> 'a list \<Rightarrow> 'a list" where
  "permute_by picks xs =
     (if xs = [] then []
      else (let i = (case picks of [] \<Rightarrow> 0 | k # ks \<Rightarrow> k mod length xs)
            in xs ! i # permute_by (tl picks) (take i xs @ drop (Suc i) xs)))"
  by pat_completeness auto
termination
proof (relation "measure (\<lambda>(picks, xs). length xs)")
  show "wf (measure (\<lambda>(picks :: nat list, xs :: 'a list). length xs))"
    by simp
next
  fix picks :: "nat list" and xs :: "'a list" and i :: nat
  assume "xs \<noteq> []" and "i = (case picks of [] \<Rightarrow> 0 | k # ks \<Rightarrow> k mod length xs)"
  then have "i < length xs"
    by (cases picks) auto
  then show "((tl picks, take i xs @ drop (Suc i) xs), picks, xs)
      \<in> measure (\<lambda>(picks, xs). length xs)"
    by simp
qed

declare permute_by.simps [simp del]

definition sort_scores :: "ai_provider \<Rightarrow> (string \<times> double) list \<Rightarrow> (string \<times> double) list" where
  "sort_scores P scores =
     (if list_ex (\<lambda>s. snd s = NaN) scores then permute_by (nan_sort_order P scores) scores
      else foldr insert_score scores [])"


definition classifyByEmbeddings ::
  "ai_provider \<Rightarrow> string \<Rightarrow> category list \<Rightarrow> double \<Rightarrow> ai_state \<Rightarrow>
   (js_error + emb_result) \<times> ai_state" where
  "classifyByEmbeddings P emailText categories threshold st =
     (if categories = []
      then (Inr \<lparr>emb_categoryId = None, emb_scores = [], emb_topScore = None\<rparr>, st)
      else
        (case getEmbedding P emailText st of
           (Inl e, st1) \<Rightarrow> (Inl e, st1)
         | (Inr emailEmb, st1) \<Rightarrow>
             (case category_scores P emailEmb categories [] st1 of
                (Inl e, st2) \<Rightarrow> (Inl e, st2)
              | (Inr unsorted, st2) \<Rightarrow>
                  (case sort_scores P unsorted of
                     [] \<Rightarrow> (Inr \<lparr>emb_categoryId = None, emb_scores = [], emb_topScore = None\<rparr>, st2)
                   | first # others \<Rightarrow>
                       (Inr \<lparr>emb_categoryId = (if js_ge (snd first) threshold then Some (fst first) else None),
                             emb_scores = first # others,
                             emb_topScore = Some (snd first)\<rparr>, st2)))))"

subsection \<open>The LLM tie-break\<close>

text \<open>
  \<^verbatim>\<open>!assistant\<close> and \<^verbatim>\<open>if (x.categoryId)\<close>: \<^verbatim>\<open>null\<close> and the empty string are falsy.
\<close>

definition truthy :: "string option \<Rightarrow> bool" where
  "truthy x \<longleftrightarrow> (case x of None \<Rightarrow> False | Some s \<Rightarrow> s \<noteq> [])"

definition chooseCategoryWithLLM ::
  "ai_provider \<Rightarrow> string \<Rightarrow> category list \<Rightarrow> ai_state \<Rightarrow> (js_error + llm_choice) \<times> ai_state" where
  "chooseCategoryWithLLM P emailText categories st =
     (if categories = []
      then (Inr \<lparr>llm_categoryId = None, llm_reason = Some ''no categories provided''\<rparr>, st)
      else
        (let st' = st\<lparr>calls := calls st @ [ClassifyChatCall]\<rparr> in
         case classify_request P (length (calls st)) emailText categories of
           Inl e \<Rightarrow> (Inl e, st')
         | Inr assistant \<Rightarrow>
             if \<not> truthy assistant
             then (Inr \<lparr>llm_categoryId = None, llm_reason = Some ''no response from model''\<rparr>, st')
             else (parse_llm_reply (the assistant) categories, st')))"

subsection \<open>classifyEmail\<close>

datatype classify_method = Embeddings | LLM | NoMethod

record classify_result =
  res_categoryId :: "string option"
  res_method :: classify_method
  res_scores :: "(string \<times> double) list option"
  res_reason :: "string option"

text \<open>\<^verbatim>\<open>String(err)\<close>\<close>

fun error_string :: "js_error \<Rightarrow> string" where
  "error_string (Error m) = ''Error: '' @ m"
| "error_string (TypeError m) = ''TypeError: '' @ m"

text \<open>The \<^verbatim>\<open>catch\<close> block of \<^verbatim>\<open>classifyEmail\<close>.\<close>

definition classifyEmail_catch ::
  "ai_provider \<Rightarrow> string \<Rightarrow> category list \<Rightarrow> js_error \<Rightarrow> ai_state \<Rightarrow>
   (js_error + classify_result) \<times> ai_state" where
  "classifyEmail_catch P emailText categories err st =
     (case chooseCategoryWithLLM P emailText categories st of
        (Inr fallback, st') \<Rightarrow>
          (Inr \<lparr>res_categoryId = llm_categoryId fallback, res_method = LLM, res_scores = None,
                res_reason = llm_reason fallback\<rparr>, st')
      | (Inl err2, st') \<Rightarrow>
          (Inr \<lparr>res_categoryId = None, res_method = NoMethod, res_scores = None,
                res_reason = Some (error_string err2)\<rparr>, st'))"

definition classifyEmail ::
  "ai_provider \<Rightarrow> string \<Rightarrow> category list \<Rightarrow> double option \<Rightarrow> ai_state \<Rightarrow>
   (js_error + classify_result) \<times> ai_state" where
  "classifyEmail P emailText categories threshold_opt st =
     (let threshold = (case threshold_opt of None \<Rightarrow> default_threshold | Some t \<Rightarrow> t) in
      case classifyByEmbeddings P emailText categories threshold st of
        (Inl err, st1) \<Rightarrow> classifyEmail_catch P emailText categories err st1
      | (Inr embedResult, st1) \<Rightarrow>
          if truthy (emb_categoryId embedResult)
          then (Inr \<lparr>res_categoryId = emb_categoryId embedResult, res_method = Embeddings,
                     res_scores = Some (emb_scores embedResult), res_reason = None\<rparr>, st1)
          else
            (case chooseCategoryWithLLM P emailText categories st1 of
               (Inl err, st2) \<Rightarrow> classifyEmail_catch P emailText categories err st2
             | (Inr llm, st2) \<Rightarrow>
                 if truthy (llm_categoryId llm)
                 then (Inr \<lparr>res_categoryId = llm_categoryId llm, res_method = LLM,
                            res_scores = None, res_reason = llm_reason llm\<rparr>, st2)
                 else (Inr \<lparr>res_categoryId = None, res_method = NoMethod, res_scores = None,
                            res_reason = Some (case llm_reason llm of None \<Rightarrow> ''no match''
                                                 | Some r \<Rightarrow> r)\<rparr>, st2)))"

subsection \<open>Example inputs\<close>

text \<open>
  A provider that answers the embeddings request for the text \<open>mail\<close> with a unit vector
  and every other embeddings request with the vector \<open>v\<close>, and every classification chat
  request with \<open>reply\<close>.
\<close>

definition example_provider :: "rat list \<Rightarrow> (js_error + string option) \<Rightarrow> ai_provider" where
  "example_provider v reply =
     \<lparr>embeddings_request = (\<lambda>k text. if text = ''mail'' then Inr (map Fin [1, 0, 0, 0, 0])
                               else Inr (map Fin v)),
      classify_request = (\<lambda>k text cs. reply),
      summarize_request = (\<lambda>k text. Inr (Some ''Summary: none'')),
      date_now = (\<lambda>k. 0),
      nan_sort_order = (\<lambda>scores. [])\<rparr>"

definition example_categories :: "category list" where
  "example_categories =
     [\<lparr>cat_id = ''cat-receipts'', cat_name = ''Receipts'',
       cat_description = Some ''purchase confirmations, invoices, orders''\<rparr>]"

definition initial_ai_state :: ai_state where
  "initial_ai_state = \<lparr>cache = Map.empty, calls = []\<rparr>"

text \<open>A provider whose every request fails.\<close>

definition failing_provider :: ai_provider where
  "failing_provider =
     \<lparr>embeddings_request = (\<lambda>k text. Inl (Error ''AI provider responded with 500: down'')),
      classify_request = (\<lambda>k text cs. Inl (Error ''AI provider responded with 500: down'')),
      summarize_request = (\<lambda>k text. Inl (Error ''AI provider responded with 500: down'')),
      date_now = (\<lambda>k. 0),
      nan_sort_order = (\<lambda>scores. [])\<rparr>"


definition work :: category where
  "work = \<lparr>cat_id = ''cat-work'', cat_name = ''Work'', cat_description = None\<rparr>"

definition receipts :: category where
  "receipts = \<lparr>cat_id = ''cat-receipts'', cat_name = ''Receipts'', cat_description = None\<rparr>"

definition social :: category where
  "social = \<lparr>cat_id = ''cat-social'', cat_name = ''Social'', cat_description = None\<rparr>"




section \<open>The summarizer (lib/ai.ts, summarizeEmail)\<close>

text \<open>
  Matching under the flag \<^verbatim>\<open>i\<close>: a character matches an ASCII pattern character when their
  upper-case forms agree (compared as code units); a character outside ASCII never matches
  an ASCII one.
\<close>

definition upper_code :: "char \<Rightarrow> nat" where
  "upper_code c =
     (if (97 :: nat) \<le> of_char c \<and> (of_char c :: nat) \<le> 122
      then of_char c - 32 else of_char c)"

definition ci_prefix :: "string \<Rightarrow> string \<Rightarrow> bool" where
  "ci_prefix pat s \<longleftrightarrow>
     length pat \<le> length s \<and> map upper_code (take (length pat) s) = map upper_code pat"

text \<open>
  \<^verbatim>\<open>assistant.match(/Summary:\s*([\s\S]*?)(?:\nActions:|\z)/i)\<close>.  In a JavaScript regular
  expression without the flag \<^verbatim>\<open>u\<close>, \<^verbatim>\<open>\z\<close> is an identity escape: it matches the letter
  \<open>z\<close> (here in either case), not the end of the input.  The capture is lazy: it ends at
  the first position where the closing alternative matches.
\<close>

definition summary_end :: "string \<Rightarrow> bool" where
  "summary_end s \<longleftrightarrow> ci_prefix (LF # ''Actions:'') s \<or> ci_prefix ''z'' s"

fun lazy_capture :: "string \<Rightarrow> string option" where
  "lazy_capture [] = (if summary_end [] then Some [] else None)"
| "lazy_capture (c # cs) =
     (if summary_end (c # cs) then Some [] else map_option ((#) c) (lazy_capture cs))"

text \<open>
  \<^verbatim>\<open>\s*\<close> is greedy and backtracks: it takes white space as long as the rest of the
  expression matches after it, and gives characters back otherwise.
\<close>

fun after_spaces :: "string \<Rightarrow> string option" where
  "after_spaces [] = lazy_capture []"
| "after_spaces (c # cs) =
     (if is_space c
      then (case after_spaces cs of Some cap \<Rightarrow> Some cap | None \<Rightarrow> lazy_capture (c # cs))
      else lazy_capture (c # cs))"

definition match_summary_at :: "string \<Rightarrow> string option" where
  "match_summary_at s = (if ci_prefix ''Summary:'' s then after_spaces (drop 8 s) else None)"

text \<open>The search tries every start position, from the left.\<close>

fun match_summary :: "string \<Rightarrow> string option" where
  "match_summary [] = match_summary_at []"
| "match_summary (c # cs) =
     (case match_summary_at (c # cs) of Some cap \<Rightarrow> Some cap | None \<Rightarrow> match_summary cs)"

text \<open>
  \<^verbatim>\<open>assistant.match(/Actions:\s*([\s\S]*)/i)\<close>: the first \<open>Actions:\<close>, the white space after
  it, and the rest of the reply as the capture.
\<close>

fun match_actions :: "string \<Rightarrow> string option" where
  "match_actions [] = None"
| "match_actions (c # cs) =
     (if ci_prefix ''Actions:'' (c # cs) then Some (dropWhile is_space (drop 8 (c # cs)))
      else match_actions cs)"

text \<open>\<^verbatim>\<open>line.replace(/^\s*[-*]\s*/, '')\<close>\<close>

definition strip_bullet :: "string \<Rightarrow> string" where
  "strip_bullet line =
     (case dropWhile is_space line of
        [] \<Rightarrow> line
      | c # cs \<Rightarrow> if c = CHR ''-'' \<or> c = CHR ''*'' then dropWhile is_space cs else line)"

record summary_result =
  summary :: string
  actions :: "string list"

definition parse_summary :: "string \<Rightarrow> summary_result" where
  "parse_summary assistant =
     (let summaryMatch = match_summary assistant;
          actionsMatch = match_actions assistant;
          summary = (case summaryMatch of Some cap \<Rightarrow> trim cap | None \<Rightarrow> trim assistant);
          actionsRaw = (case actionsMatch of Some cap \<Rightarrow> trim cap | None \<Rightarrow> [])
      in \<lparr>summary = summary,
          actions = (if length actionsRaw = 0 then []
                     else filter (\<lambda>l. length l > 0)
                            (map (\<lambda>line. trim (strip_bullet line)) (split_lines actionsRaw)))\<rparr>)"

definition summarizeEmail ::
  "ai_provider \<Rightarrow> string \<Rightarrow> ai_state \<Rightarrow> (js_error + summary_result) \<times> ai_state" where
  "summarizeEmail P emailText st =
     (let st' = st\<lparr>calls := calls st @ [SummarizeChatCall]\<rparr> in
      case summarize_request P (length (calls st)) emailText of
        Inl e \<Rightarrow> (Inl e, st')
      | Inr assistant \<Rightarrow>
          if \<not> truthy assistant then (Inl (Error ''No summary returned from LLM''), st')
          else (Inr (parse_summary (the assistant)), st'))"

text \<open>A reply in the format the prompt asks for.\<close>

definition example_reply :: string where
  "example_reply = ''Summary: Your prize is ready'' @ [LF] @ ''Actions:'' @ [LF] @ ''- Claim it''"

section \<open>The ingestion pipeline (POST /api/gmail/sync)\<close>

subsection \<open>Data\<close>

text \<open>A row of the table \<open>emails\<close>, with the columns the handler writes.\<close>

record email_row =
  e_google_account_id :: string
  e_gmail_message_id :: string
  e_category_id :: "string option"
  e_subject :: string
  e_from_email :: string
  e_date :: string
  e_raw_text :: string
  e_summarized_text :: string

text \<open>
  The payload of a Gmail message: its headers, the data of its top-level body and its parts
  (MIME type and body data).  The base64 data are taken as already decoded; missing data and
  empty data are both falsy and both modelled as the empty string.
\<close>

record gmail_payload =
  p_headers :: "(string \<times> string) list"
  p_body_data :: string
  p_parts :: "(string \<times> string) list option"

datatype get_result = GetThrows js_error | GetNotOk | GetOk "gmail_payload option"

datatype ai_http = AiThrows js_error | AiNotOk | AiJsonThrows js_error | AiContent "string option"

text \<open>
  What \<^verbatim>\<open>JSON.parse(content)\<close> gives, as far as the handler reads it: the fields
  \<open>category\<close> (absent when it is missing or not a string) and \<open>summary\<close>.
\<close>

record ai_json =
  j_category :: "string option"
  j_summary :: "string option"

datatype list_result = ListThrows js_error | ListNotOk | ListOk "string list" nat

text \<open>
  The environment of one run: the request, the external services and the clock.  The AI
  request is asked with the number of events so far and the data the prompt is built from.
\<close>

record sync_env =
  accountId_param :: "string option"
  user_id_cookie :: "string option"
  account_found :: bool
  token_expired :: bool
  categories_query :: "js_error + category list"
  inbox_insert :: "js_error + string"
  gmail_list :: list_result
  gmail_get :: "string \<Rightarrow> get_result"
  openrouter_key :: "string option"
  openai_key :: "string option"
  ai_fetch :: "nat \<Rightarrow> string \<Rightarrow> string \<Rightarrow> string \<Rightarrow> category list \<Rightarrow> ai_http"
  json_parse :: "string \<Rightarrow> js_error + ai_json"
  to_iso :: "string \<Rightarrow> string option"
  now_iso :: string
  insert_error :: "email_row \<Rightarrow> string option"
  emails_select_fails :: "nat \<Rightarrow> string \<Rightarrow> bool"

datatype sync_event =
    DupCheck string
  | FetchFull string
  | AiFetch string
  | InsertEmail string
  | ArchiveMessage string
  | UpdateLastSync

record sync_state =
  emails :: "email_row list"
  events :: "sync_event list"

subsection \<open>Strings\<close>

text \<open>
  \<^verbatim>\<open>a.toLowerCase() === b.toLowerCase()\<close>, on code units: in the Latin-1 range the letters
  A to Z and the letters from 192 to 222 other than 215 have a lower-case form, 32 above.
\<close>

definition lower_code :: "char \<Rightarrow> nat" where
  "lower_code c =
     (let n = of_char c in
      if (65 \<le> n \<and> n \<le> 90) \<or> (192 \<le> n \<and> n \<le> 222 \<and> n \<noteq> 215) then n + 32 else n)"

definition is_inbox :: "category \<Rightarrow> bool" where
  "is_inbox c \<longleftrightarrow> map lower_code (cat_name c) = map lower_code ''inbox''"

definition synthesized_summary :: "string \<Rightarrow> string \<Rightarrow> string" where
  "synthesized_summary sender subject = ''Email from '' @ sender @ '': '' @ subject"

subsection \<open>classifyEmail of the sync route\<close>

text \<open>\<^verbatim>\<open>categories[0]?.id\<close>\<close>

definition first_category_id :: "category list \<Rightarrow> string option" where
  "first_category_id categories = (case categories of [] \<Rightarrow> None | c # _ \<Rightarrow> Some (cat_id c))"

text \<open>
  \<^verbatim>\<open>categories.find((c) => c.name.toLowerCase() === parsed.category.toLowerCase())\<close>; the
  callback throws a TypeError when \<open>parsed.category\<close> is not a string and the list is not
  empty.
\<close>

definition find_by_name :: "category list \<Rightarrow> string option \<Rightarrow> js_error + category option" where
  "find_by_name categories cat =
     (case cat of
        None \<Rightarrow> if categories = [] then Inr None
                else Inl (TypeError ''Cannot read properties of undefined (reading toLowerCase)'')
      | Some n \<Rightarrow> Inr (find (\<lambda>c. map lower_code (cat_name c) = map lower_code n) categories))"

record sync_classification =
  sc_categoryId :: "string option"
  sc_summary :: string

text \<open>
  The result of every fallback branch, and of the \<^verbatim>\<open>catch\<close> block: the first category of
  the list given to the function, and the synthesized summary.  (Within the \<^verbatim>\<open>try\<close> block
  \<^verbatim>\<open>categories[0].id\<close> throws on an empty list; the \<^verbatim>\<open>catch\<close> block then returns
  \<^verbatim>\<open>categories[0]?.id\<close>, which is undefined: the same value as here.)
\<close>

definition sync_fallback :: "string \<Rightarrow> string \<Rightarrow> category list \<Rightarrow> sync_classification" where
  "sync_fallback subject sender categories =
     \<lparr>sc_categoryId = first_category_id categories,
      sc_summary = synthesized_summary sender subject\<rparr>"

text \<open>
  The function returns its result and whether it made a request to the provider.
\<close>

definition sync_classifyEmail ::
  "sync_env \<Rightarrow> nat \<Rightarrow> string \<Rightarrow> string \<Rightarrow> string \<Rightarrow> category list \<Rightarrow> sync_classification \<times> bool" where
  "sync_classifyEmail env k subject body sender categories =
     (if \<not> truthy (openrouter_key env) \<and> \<not> truthy (openai_key env)
      then (sync_fallback subject sender categories, False)
      else
        (case ai_fetch env k subject body sender categories of
           AiThrows e \<Rightarrow> (sync_fallback subject sender categories, True)
         | AiNotOk \<Rightarrow> (sync_fallback subject sender categories, True)
         | AiJsonThrows e \<Rightarrow> (sync_fallback subject sender categories, True)
         | AiContent content \<Rightarrow>
             if \<not> truthy content then (sync_fallback subject sender categories, True)
             else
               (case json_parse env (the content) of
                  Inl e \<Rightarrow> (sync_fallback subject sender categories, True)
                | Inr parsed \<Rightarrow>
                    (case find_by_name categories (j_category parsed) of
                       Inl e \<Rightarrow> (sync_fallback subject sender categories, True)
                     | Inr matchedCategory \<Rightarrow>
                         (\<lparr>sc_categoryId =
                             (if truthy (map_option cat_id matchedCategory)
                              then map_option cat_id matchedCategory
                              else first_category_id categories),
                           sc_summary =
                             (if truthy (j_summary parsed) then the (j_summary parsed)
                              else synthesized_summary sender subject)\<rparr>, True)))))"

subsection \<open>The loop over the fetched messages\<close>

text \<open>
  \<^verbatim>\<open>headers.find((h) => h.name === name)?.value || dflt\<close>
\<close>

definition header_value :: "(string \<times> string) list \<Rightarrow> string \<Rightarrow> string \<Rightarrow> string" where
  "header_value hs name dflt =
     (case find (\<lambda>h. fst h = name) hs of
        None \<Rightarrow> dflt
      | Some h \<Rightarrow> or_else (snd h) dflt)"

definition extract_body :: "gmail_payload option \<Rightarrow> string" where
  "extract_body payload =
     (case payload of
        None \<Rightarrow> []
      | Some p \<Rightarrow>
          if p_body_data p \<noteq> [] then p_body_data p
          else (case p_parts p of
                  None \<Rightarrow> []
                | Some parts \<Rightarrow>
                    (case find (\<lambda>part. fst part = ''text/plain'') parts of
                       None \<Rightarrow> []
                     | Some textPart \<Rightarrow> snd textPart)))"

text \<open>
  \<^verbatim>\<open>.from("emails").select("id").eq("gmail_message_id", id).single()\<close>: the data are the
  row when exactly one row matches, and null (with an error) when none or several do.  The
  handler uses the admin client, which reads the rows of every account.
\<close>

definition single_by_gmail_id :: "email_row list \<Rightarrow> string \<Rightarrow> email_row option" where
  "single_by_gmail_id rows mid =
     (case filter (\<lambda>r. e_gmail_message_id r = mid) rows of [r] \<Rightarrow> Some r | _ \<Rightarrow> None)"

text \<open>
  \<^verbatim>\<open>const { data: existing } = await supabase...single()\<close>: the query itself may fail (the
  environment tells, asked with the number of events so far and the message id); the handler
  reads the data only and drops the error, so that \<open>existing\<close> is null then as well.
\<close>

definition select_existing :: "sync_env \<Rightarrow> nat \<Rightarrow> email_row list \<Rightarrow> string \<Rightarrow> email_row option" where
  "select_existing env k rows mid =
     (if emails_select_fails env k mid then None else single_by_gmail_id rows mid)"

text \<open>
  \<^verbatim>\<open>.from("emails").insert(emailRecord)\<close>: the table has the constraint
  \<^verbatim>\<open>UNIQUE(google_account_id, gmail_message_id)\<close>; any other failure is the environment's.
\<close>

definition violates_unique :: "email_row list \<Rightarrow> email_row \<Rightarrow> bool" where
  "violates_unique rows r \<longleftrightarrow>
     list_ex (\<lambda>x. e_google_account_id x = e_google_account_id r \<and>
                  e_gmail_message_id x = e_gmail_message_id r) rows"

definition insert_email :: "sync_env \<Rightarrow> email_row list \<Rightarrow> email_row \<Rightarrow> string option" where
  "insert_email env rows r =
     (if violates_unique rows r
      then Some ''duplicate key value violates unique constraint''
      else insert_error env r)"

record loop_state =
  ls_st :: sync_state
  ls_imported :: nat
  ls_errors :: "string list"

definition emit :: "sync_event \<Rightarrow> loop_state \<Rightarrow> loop_state" where
  "emit ev ls = ls\<lparr>ls_st := (ls_st ls)\<lparr>events := events (ls_st ls) @ [ev]\<rparr>\<rparr>"

definition push_error :: "string \<Rightarrow> loop_state \<Rightarrow> loop_state" where
  "push_error msg ls = ls\<lparr>ls_errors := ls_errors ls @ [msg]\<rparr>"

text \<open>The body of the loop, for the message with id \<open>mid\<close>.\<close>

definition process_message ::
  "sync_env \<Rightarrow> string \<Rightarrow> string \<Rightarrow> category list \<Rightarrow> string \<Rightarrow> loop_state \<Rightarrow> loop_state" where
  "process_message env accountId inboxId classificationCategories mid ls0 =
     (let ls1 = emit (DupCheck mid) ls0 in
      case select_existing env (length (events (ls_st ls0))) (emails (ls_st ls1)) mid of
        Some existing \<Rightarrow> ls1
      | None \<Rightarrow>
          (let ls2 = emit (FetchFull mid) ls1 in
           case gmail_get env mid of
             GetThrows e \<Rightarrow> push_error (''Error processing email: '' @ error_string e) ls2
           | GetNotOk \<Rightarrow> push_error (''Failed to fetch email '' @ mid) ls2
           | GetOk payload \<Rightarrow>
               (let headers = (case payload of None \<Rightarrow> [] | Some p \<Rightarrow> p_headers p);
                    subject = header_value headers ''Subject'' ''No Subject'';
                    sender = header_value headers ''From'' ''Unknown'';
                    date = header_value headers ''Date'' (now_iso env);
                    body = extract_body payload;
                    (cls, requested) =
                      (if length classificationCategories > 0
                       then sync_classifyEmail env (length (events (ls_st ls2))) subject body sender
                              classificationCategories
                       else (\<lparr>sc_categoryId = Some inboxId,
                              sc_summary = synthesized_summary sender subject\<rparr>, False));
                    ls3 = (if requested then emit (AiFetch mid) ls2 else ls2)
                in case to_iso env date of
                     None \<Rightarrow>
                       push_error ''Error processing email: RangeError: Invalid time value'' ls3
                   | Some isoDate \<Rightarrow>
                       (let emailRecord =
                              \<lparr>e_google_account_id = accountId, e_gmail_message_id = mid,
                               e_category_id = sc_categoryId cls, e_subject = subject,
                               e_from_email = sender, e_date = isoDate,
                               e_raw_text = take 10000 body,
                               e_summarized_text = sc_summary cls\<rparr>;
                            ls4 = emit (InsertEmail mid) ls3
                        in case insert_email env (emails (ls_st ls4)) emailRecord of
                             Some msg \<Rightarrow>
                               push_error (''Failed to import email: '' @ subject @ '' - '' @ msg) ls4
                           | None \<Rightarrow>
                               (let ls5 = ls4\<lparr>ls_st := (ls_st ls4)\<lparr>emails := emails (ls_st ls4) @ [emailRecord]\<rparr>\<rparr>;
                                    ls6 = emit (ArchiveMessage mid) ls5
                                in ls6\<lparr>ls_imported := ls_imported ls6 + 1\<rparr>)))))"

fun process_messages ::
  "sync_env \<Rightarrow> string \<Rightarrow> string \<Rightarrow> category list \<Rightarrow> string list \<Rightarrow> loop_state \<Rightarrow> loop_state" where
  "process_messages env accountId inboxId cs [] ls = ls"
| "process_messages env accountId inboxId cs (mid # mids) ls =
     process_messages env accountId inboxId cs mids
       (process_message env accountId inboxId cs mid ls)"

subsection \<open>The handler\<close>

datatype sync_response =
    ErrorResponse nat string
  | NoNewEmails
  | SyncDone nat nat "string list"

fun response_status :: "sync_response \<Rightarrow> nat" where
  "response_status (ErrorResponse code msg) = code"
| "response_status NoNewEmails = 200"
| "response_status (SyncDone n k errs) = 200"

text \<open>
  The Inbox category: the first category named \<open>inbox\<close> in any case, or a new one.
\<close>

definition new_inbox :: "string \<Rightarrow> category" where
  "new_inbox i =
     \<lparr>cat_id = i, cat_name = ''Inbox'',
      cat_description = Some ''Uncategorized emails and new imports''\<rparr>"

definition POST_sync :: "sync_env \<Rightarrow> sync_state \<Rightarrow> sync_response \<times> sync_state" where
  "POST_sync env s =
     (if \<not> truthy (accountId_param env) then (ErrorResponse 400 ''Account ID is required'', s)
      else if \<not> truthy (user_id_cookie env) then (ErrorResponse 401 ''Unauthorized'', s)
      else if \<not> account_found env
      then (ErrorResponse 404 ''Account not found or access denied'', s)
      else if token_expired env
      then (ErrorResponse 401 ''Access token expired. Please reconnect your account.'', s)
      else
        (case categories_query env of
           Inl e \<Rightarrow> (ErrorResponse 500 ''Failed to fetch categories'', s)
         | Inr categories \<Rightarrow>
             (case (case find is_inbox categories of
                      Some c \<Rightarrow> Inr c
                    | None \<Rightarrow> map_sum (\<lambda>e. e) new_inbox (inbox_insert env)) of
                Inl e \<Rightarrow> (ErrorResponse 500 ''Failed to create Inbox category'', s)
              | Inr inboxCategory \<Rightarrow>
                  (let allCategories =
                         (if find (\<lambda>c. cat_id c = cat_id inboxCategory) categories = None
                          then categories @ [inboxCategory] else categories);
                       classificationCategories = filter (\<lambda>c. \<not> is_inbox c) allCategories
                   in case gmail_list env of
                        ListThrows e \<Rightarrow> (ErrorResponse 500 ''Failed to sync emails'', s)
                      | ListNotOk \<Rightarrow> (ErrorResponse 500 ''Failed to fetch emails from Gmail'', s)
                      | ListOk messages totalInInbox \<Rightarrow>
                          if length messages = 0 then (NoNewEmails, s)
                          else
                            (let ls = process_messages env (the (accountId_param env))
                                        (cat_id inboxCategory) classificationCategories messages
                                        \<lparr>ls_st = s, ls_imported = 0, ls_errors = []\<rparr>;
                                 s' = (ls_st ls)\<lparr>events := events (ls_st ls) @ [UpdateLastSync]\<rparr>
                             in (SyncDone (ls_imported ls) (length messages) (ls_errors ls), s'))))))"

subsection \<open>Statements about a run\<close>

text \<open>
  The rows a run appends all carry the category \<open>cid\<close> and the synthesized summary of their
  own sender and subject.
\<close>

definition inbox_row :: "string \<Rightarrow> email_row \<Rightarrow> bool" where
  "inbox_row cid r \<longleftrightarrow>
     e_category_id r = Some cid \<and>
     e_summarized_text r = synthesized_summary (e_from_email r) (e_subject r)"

fun is_ai_fetch :: "sync_event \<Rightarrow> bool" where
  "is_ai_fetch (AiFetch mid) = True"
| "is_ai_fetch ev = False"

text \<open>The id of the Inbox category of a run: of the first category named inbox, or of the new one.\<close>

definition inbox_id :: "sync_env \<Rightarrow> category list \<Rightarrow> string option" where
  "inbox_id env categories =
     (case find is_inbox categories of
        Some c \<Rightarrow> Some (cat_id c)
      | None \<Rightarrow> (case inbox_insert env of Inl e \<Rightarrow> None | Inr i \<Rightarrow> Some i))"

subsection \<open>Example inputs\<close>

definition example_payload :: gmail_payload where
  "example_payload =
     \<lparr>p_headers = [(''Subject'', ''Your order has shipped''), (''From'', ''shop@example.com''),
                   (''Date'', ''Mon, 1 Jan 2024 10:00:00 +0000'')],
      p_body_data = ''Order #123 total $49.99'',
      p_parts = None\<rparr>"

text \<open>
  A run for the account \<open>acct-A\<close> with the given provider key and categories, over a page
  with the given message ids; every message has the example payload, the provider answers
  with a non-OK response, no query fails, and storage accepts every row the constraint
  allows.
\<close>

definition example_sync_env :: "string option \<Rightarrow> category list \<Rightarrow> string list \<Rightarrow> sync_env" where
  "example_sync_env key categories messages =
     \<lparr>accountId_param = Some ''acct-A'',
      user_id_cookie = Some ''user-1'',
      account_found = True,
      token_expired = False,
      categories_query = Inr categories,
      inbox_insert = Inr ''cat-new-inbox'',
      gmail_list = ListOk messages (length messages),
      gmail_get = (\<lambda>mid. GetOk (Some example_payload)),
      openrouter_key = key,
      openai_key = None,
      ai_fetch = (\<lambda>k subject body sender cs. AiNotOk),
      json_parse = (\<lambda>content. Inl (Error ''Unexpected token'')),
      to_iso = (\<lambda>d. Some ''2024-01-01T10:00:00.000Z''),
      now_iso = ''2024-01-02T00:00:00.000Z'',
      insert_error = (\<lambda>r. None),
      emails_select_fails = (\<lambda>k mid. False)\<rparr>"

definition inbox_category :: category where
  "inbox_category =
     \<lparr>cat_id = ''cat-inbox'', cat_name = ''Inbox'', cat_description = Some ''Uncategorized''\<rparr>"

definition work_category :: category where
  "work_category =
     \<lparr>cat_id = ''cat-work'', cat_name = ''Work'',
      cat_description = Some ''meetings, projects, colleagues''\<rparr>"

definition empty_storage :: sync_state where
  "empty_storage = \<lparr>emails = [], events = []\<rparr>"

definition stored_row :: "string \<Rightarrow> string \<Rightarrow> email_row" where
  "stored_row account mid =
     \<lparr>e_google_account_id = account, e_gmail_message_id = mid, e_category_id = Some ''cat-inbox'',
      e_subject = ''Your order has shipped'', e_from_email = ''shop@example.com'',
      e_date = ''2024-01-01T10:00:00.000Z'', e_raw_text = ''Order #123 total $49.99'',
      e_summarized_text = ''Email from shop@example.com: Your order has shipped''\<rparr>"

section \<open>The unsubscribe batch endpoint (app/api/emails/unsubscribe/route.ts)\<close>

subsection \<open>Data\<close>

definition BATCH_SIZE :: nat where
  "BATCH_SIZE = 10"

definition MAX_RETRIES :: nat where
  "MAX_RETRIES = 3"

record google_account =
  ga_id :: string
  ga_email :: string

text \<open>A row of \<open>emails\<close> as the endpoint selects it, with its account when it has one.\<close>

record unsub_email =
  u_id :: string
  u_gmail_message_id :: string
  u_google_accounts :: "google_account option"

text \<open>A row of the table \<open>unsubscribe_attempts\<close>.\<close>

record attempt =
  a_email_id :: string
  a_method :: string
  a_status :: string
  a_link :: "string option"
  a_error_message :: "string option"
  a_attempt :: nat

datatype gmail_action = RemoveLabel string string | AddLabel string string

record unsub_state =
  attempts :: "attempt list"
  gmail_actions :: "gmail_action list"

text \<open>
  The answer of \<^verbatim>\<open>gmail.users.messages.get\<close>: an exception, or a response whose \<open>data\<close>
  may be missing and whose payload headers may be missing.
\<close>

datatype gmail_message = MessageThrows js_error | Message "(string \<times> string) list option option"

text \<open>
  The environment of a request.  The Gmail calls are asked with the email and the number of
  the attempt, the insert of the attempt row likewise.
\<close>

record unsub_env =
  messages_get :: "unsub_email \<Rightarrow> nat \<Rightarrow> gmail_message"
  messages_modify :: "unsub_email \<Rightarrow> nat \<Rightarrow> js_error option"
  log_insert_fails :: "unsub_email \<Rightarrow> nat \<Rightarrow> bool"
  emails_query :: "string list \<Rightarrow> string + unsub_email list"
  getGoogleClient :: "google_account \<Rightarrow> js_error option"

record unsubscribe_result =
  r_emailId :: string
  r_success :: bool
  r_message :: string
  r_retries :: "nat option"

subsection \<open>unsubscribeEmail\<close>

fun error_message :: "js_error \<Rightarrow> string" where
  "error_message (Error m) = m"
| "error_message (TypeError m) = m"

text \<open>
  \<^verbatim>\<open>headers?.find((h) => h.name?.toLowerCase() === "list-unsubscribe")\<close>
\<close>

definition find_list_unsubscribe :: "(string \<times> string) list option \<Rightarrow> (string \<times> string) option" where
  "find_list_unsubscribe headers =
     (case headers of
        None \<Rightarrow> None
      | Some hs \<Rightarrow> find (\<lambda>h. map lower_code (fst h) = map lower_code ''list-unsubscribe'') hs)"

text \<open>\<^verbatim>\<open>listUnsubscribe?.value || null\<close>\<close>

definition link_of :: "(string \<times> string) option \<Rightarrow> string option" where
  "link_of listUnsubscribe =
     (case listUnsubscribe of
        None \<Rightarrow> None
      | Some h \<Rightarrow> if snd h = [] then None else Some (snd h))"

text \<open>The row logged at the start of an attempt.\<close>

definition pending_attempt :: "unsub_email \<Rightarrow> (string \<times> string) option \<Rightarrow> nat \<Rightarrow> attempt" where
  "pending_attempt email listUnsubscribe retries =
     \<lparr>a_email_id = u_id email,
      a_method = (if listUnsubscribe \<noteq> None then ''list_unsubscribe'' else ''mark_spam''),
      a_status = ''pending'',
      a_link = link_of listUnsubscribe,
      a_error_message = None,
      a_attempt = retries + 1\<rparr>"

text \<open>
  The \<^verbatim>\<open>try\<close> block of the loop: the result, or the exception the \<^verbatim>\<open>catch\<close> block gets.
  The row of the attempt is the last of the table when its insert succeeded; the update sets
  its status.
\<close>

definition try_unsubscribe ::
  "unsub_env \<Rightarrow> unsub_email \<Rightarrow> nat \<Rightarrow> unsub_state \<Rightarrow> (js_error + unsubscribe_result) \<times> unsub_state" where
  "try_unsubscribe env email retries s =
     (case messages_get env email retries of
        MessageThrows e \<Rightarrow> (Inl e, s)
      | Message None \<Rightarrow>
          (Inl (TypeError ''Cannot read properties of undefined (reading payload)''), s)
      | Message (Some headers) \<Rightarrow>
          (let listUnsubscribe = find_list_unsubscribe headers;
               logged = \<not> log_insert_fails env email retries;
               s1 = (if logged
                     then s\<lparr>attempts := attempts s @ [pending_attempt email listUnsubscribe retries]\<rparr>
                     else s)
           in case messages_modify env email retries of
                Some e \<Rightarrow> (Inl e, s1)
              | None \<Rightarrow>
                  (let s2 = s1\<lparr>gmail_actions := gmail_actions s1 @
                              [if listUnsubscribe \<noteq> None
                               then RemoveLabel (u_gmail_message_id email) ''UNSUBSCRIBE''
                               else AddLabel (u_gmail_message_id email) ''SPAM'']\<rparr>;
                       s3 = (if logged
                             then s2\<lparr>attempts := butlast (attempts s2) @
                                    [(last (attempts s2))\<lparr>a_status := ''success''\<rparr>]\<rparr>
                             else s2)
                   in (Inr \<lparr>r_emailId = u_id email, r_success = True,
                            r_message = (if listUnsubscribe \<noteq> None
                                         then ''Unsubscribed via Gmail API''
                                         else ''Marked as spam (no unsubscribe header)''),
                            r_retries = Some retries\<rparr>, s3))))"

text \<open>Decimal digits of a number, for the template strings.\<close>

fun string_of_small :: "nat \<Rightarrow> string" where
  "string_of_small n =
     (if n < 10 then [''0123456789'' ! n]
      else string_of_small (n div 10) @ [''0123456789'' ! (n mod 10)])"

declare string_of_small.simps [simp del]

text \<open>The row logged when the last attempt has failed.\<close>

definition failed_attempt :: "unsub_email \<Rightarrow> js_error \<Rightarrow> nat \<Rightarrow> attempt" where
  "failed_attempt email e retries =
     \<lparr>a_email_id = u_id email, a_method = ''failed'', a_status = ''failed'', a_link = None,
      a_error_message = Some (error_message e), a_attempt = retries\<rparr>"

text \<open>
  The loop \<^verbatim>\<open>while (retries < MAX_RETRIES)\<close>; the waiting between attempts has no
  effect on the result.
\<close>

function unsubscribe_loop ::
  "unsub_env \<Rightarrow> unsub_email \<Rightarrow> nat \<Rightarrow> unsub_state \<Rightarrow> unsubscribe_result \<times> unsub_state" where
  "unsubscribe_loop env email retries s =
     (if retries < MAX_RETRIES then
        (case try_unsubscribe env email retries s of
           (Inr result, s') \<Rightarrow> (result, s')
         | (Inl e, s') \<Rightarrow>
             if retries + 1 = MAX_RETRIES
             then (\<lparr>r_emailId = u_id email, r_success = False,
                    r_message = ''Failed after '' @ string_of_small (retries + 1) @ '' attempts: ''
                                @ error_message e,
                    r_retries = Some (retries + 1)\<rparr>,
                   s'\<lparr>attempts := attempts s' @ [failed_attempt email e (retries + 1)]\<rparr>)
             else unsubscribe_loop env email (retries + 1) s')
      else (\<lparr>r_emailId = u_id email, r_success = False, r_message = ''Maximum retries exceeded'',
             r_retries = Some retries\<rparr>, s))"
  by pat_completeness auto
termination
  by (relation "measure (\<lambda>(env, email, retries, s). MAX_RETRIES - retries)") auto

declare unsubscribe_loop.simps [simp del]

definition unsubscribeEmail ::
  "unsub_env \<Rightarrow> unsub_email \<Rightarrow> unsub_state \<Rightarrow> unsubscribe_result \<times> unsub_state" where
  "unsubscribeEmail env email s = unsubscribe_loop env email 0 s"

subsection \<open>The handler\<close>

datatype email_ids = NotAnArray | IdList "string list"

datatype request_body = BodyThrows js_error | Body email_ids

record batch_results =
  successful :: nat
  failed :: nat
  skipped :: nat
  total_count :: nat
  details :: "unsubscribe_result list"

datatype unsub_response = Response nat "batch_results option"

fun status :: "unsub_response \<Rightarrow> nat" where
  "status (Response code body) = code"

text \<open>\<^verbatim>\<open>emailIds.slice(i, i + BATCH_SIZE)\<close> for \<open>i = 0, BATCH_SIZE, ...\<close>\<close>

function chunks :: "string list \<Rightarrow> string list list" where
  "chunks ids = (if ids = [] then [] else take BATCH_SIZE ids # chunks (drop BATCH_SIZE ids))"
  by pat_completeness auto
termination
  by (relation "measure length") (auto simp: BATCH_SIZE_def)

declare chunks.simps [simp del]

text \<open>
  The emails of a chunk grouped by account, the groups in the order in which their accounts
  first occur (the keys are account ids; \<^verbatim>\<open>Object.values\<close> keeps the insertion order of
  keys that are not array indices).  An email without account is counted as skipped.
\<close>

fun add_to_group ::
  "unsub_email \<Rightarrow> google_account \<Rightarrow> (google_account \<times> unsub_email list) list \<Rightarrow>
   (google_account \<times> unsub_email list) list" where
  "add_to_group email account [] = [(account, [email])]"
| "add_to_group email account ((a, es) # groups) =
     (if ga_id a = ga_id account then (a, es @ [email]) # groups
      else (a, es) # add_to_group email account groups)"

fun group_emails ::
  "unsub_email list \<Rightarrow> (google_account \<times> unsub_email list) list \<Rightarrow> batch_results \<Rightarrow>
   (google_account \<times> unsub_email list) list \<times> batch_results" where
  "group_emails [] groups results = (groups, results)"
| "group_emails (email # emailList) groups results =
     (case u_google_accounts email of
        None \<Rightarrow>
          group_emails emailList groups
            (results\<lparr>skipped := skipped results + 1,
               details := details results @
                 [\<lparr>r_emailId = u_id email, r_success = False,
                   r_message = ''No associated Google account'', r_retries = None\<rparr>]\<rparr>)
      | Some account \<Rightarrow> group_emails emailList (add_to_group email account groups) results)"

text \<open>
  The calls of \<open>unsubscribeEmail\<close> for the emails of one account are started together; each
  only appends to the tables, and the results are taken in the order of the emails.
\<close>

fun unsubscribe_all ::
  "unsub_env \<Rightarrow> unsub_email list \<Rightarrow> unsub_state \<Rightarrow> unsubscribe_result list \<times> unsub_state" where
  "unsubscribe_all env [] s = ([], s)"
| "unsubscribe_all env (email # emailList) s =
     (case unsubscribeEmail env email s of
        (result, s') \<Rightarrow>
          (case unsubscribe_all env emailList s' of
             (results, s'') \<Rightarrow> (result # results, s'')))"

definition count_result :: "unsubscribe_result \<Rightarrow> batch_results \<Rightarrow> batch_results" where
  "count_result result results =
     (if r_success result
      then results\<lparr>successful := successful results + 1, details := details results @ [result]\<rparr>
      else results\<lparr>failed := failed results + 1, details := details results @ [result]\<rparr>)"

definition account_error :: "js_error \<Rightarrow> unsub_email \<Rightarrow> unsubscribe_result" where
  "account_error e email =
     \<lparr>r_emailId = u_id email, r_success = False,
      r_message = ''Account error: '' @ error_message e, r_retries = None\<rparr>"

definition process_account ::
  "unsub_env \<Rightarrow> google_account \<times> unsub_email list \<Rightarrow> batch_results \<times> unsub_state \<Rightarrow>
   batch_results \<times> unsub_state" where
  "process_account env grp rs =
     (case grp of (account, emailList) \<Rightarrow>
       (case rs of (results, s) \<Rightarrow>
         (case getGoogleClient env account of
            Some e \<Rightarrow> (foldl (\<lambda>res email. count_result (account_error e email) res) results emailList, s)
          | None \<Rightarrow>
              (case unsubscribe_all env emailList s of
                 (accountResults, s') \<Rightarrow>
                   (foldl (\<lambda>res result. count_result result res) results accountResults, s')))))"

definition not_found :: "string \<Rightarrow> unsubscribe_result" where
  "not_found emailId =
     \<lparr>r_emailId = emailId, r_success = False, r_message = ''Email not found'', r_retries = None\<rparr>"

text \<open>
  The loop over the chunks; a failed query of a chunk's rows throws, and the handler answers
  500 without the results gathered so far.
\<close>

fun process_chunks ::
  "unsub_env \<Rightarrow> string list list \<Rightarrow> batch_results \<times> unsub_state \<Rightarrow>
   (string + batch_results) \<times> unsub_state" where
  "process_chunks env [] (results, s) = (Inr results, s)"
| "process_chunks env (batch # batches) (results, s) =
     (case emails_query env batch of
        Inl msg \<Rightarrow> (Inl (''Failed to fetch emails: '' @ msg), s)
      | Inr emailList \<Rightarrow>
          if emailList = []
          then process_chunks env batches
                 (results\<lparr>skipped := skipped results + length batch,
                    details := details results @ map not_found batch\<rparr>, s)
          else
            (case group_emails emailList [] results of
               (emailsByAccount, results') \<Rightarrow>
                 process_chunks env batches
                   (foldl (\<lambda>rs grp. process_account env grp rs) (results', s) emailsByAccount)))"

text \<open>
  The handler.  Reading the request body may throw; creating the storage client is taken to
  succeed (the server's environment is configured).
\<close>

definition POST_unsubscribe ::
  "unsub_env \<Rightarrow> request_body \<Rightarrow> unsub_state \<Rightarrow> unsub_response \<times> unsub_state" where
  "POST_unsubscribe env body s =
     (case body of
        BodyThrows e \<Rightarrow> (Response 500 None, s)
      | Body NotAnArray \<Rightarrow> (Response 400 None, s)
      | Body (IdList emailIds) \<Rightarrow>
          if length emailIds = 0 then (Response 400 None, s)
          else
            (case process_chunks env (chunks emailIds)
                    (\<lparr>successful = 0, failed = 0, skipped = 0, total_count = length emailIds,
                      details = []\<rparr>, s) of
               (Inl msg, s') \<Rightarrow> (Response 500 None, s')
             | (Inr results, s') \<Rightarrow> (Response 200 (Some results), s')))"

text \<open>
  The check of the test \<open>should reject dangerous protocols\<close>
  (tests/integration/unsubscribe.test.ts):
  \<^verbatim>\<open>url.startsWith("http://") || url.startsWith("https://")\<close>
\<close>

definition isValid :: "string \<Rightarrow> bool" where
  "isValid url \<longleftrightarrow> take 7 url = ''http://'' \<or> take 8 url = ''https://''"

subsection \<open>Example inputs\<close>

definition example_email :: "string \<Rightarrow> unsub_email" where
  "example_email i =
     \<lparr>u_id = i, u_gmail_message_id = ''gm-'' @ i,
      u_google_accounts = Some \<lparr>ga_id = ''acct-A'', ga_email = ''user@example.com''\<rparr>\<rparr>"

text \<open>
  An environment in which every message has the given headers, every Gmail call and every
  insert succeeds, the query returns a row for each id asked, and the authentication and the
  query fail when told so.
\<close>

definition example_unsub_env :: "(string \<times> string) list \<Rightarrow> bool \<Rightarrow> bool \<Rightarrow> unsub_env" where
  "example_unsub_env headers auth_fails query_fails =
     \<lparr>messages_get = (\<lambda>email k. Message (Some (Some headers))),
      messages_modify = (\<lambda>email k. None),
      log_insert_fails = (\<lambda>email k. False),
      emails_query = (\<lambda>batch. if query_fails then Inl ''connection refused''
                               else Inr (map example_email batch)),
      getGoogleClient = (\<lambda>account. if auth_fails
                                    then Some (Error ''Failed to obtain Google access token'')
                                    else None)\<rparr>"

definition initial_unsub_state :: unsub_state where
  "initial_unsub_state = \<lparr>attempts = [], gmail_actions = []\<rparr>"

section \<open>Properties of the reply parsing\<close>

lemma is_digit_not_space: "is_digit c \<Longrightarrow> \<not> is_space c"
  by (auto simp: is_digit_def is_space_def)

lemma LF_not_digit: "\<not> is_digit LF"
  by (simp add: is_digit_def LF_def)

lemma CR_not_digit: "\<not> is_digit CR"
  by (simp add: is_digit_def CR_def)

lemma LF_space: "is_space LF"
  by (simp add: is_space_def LF_def)

lemma takeWhile_digit_stop:
  "\<not> is_digit x \<Longrightarrow> takeWhile is_digit (xs @ x # ys) = takeWhile is_digit xs"
  by (induction xs) auto

lemma takeWhile_digit_spaces:
  "\<forall>c \<in> set ws. is_space c \<Longrightarrow> takeWhile is_digit (r @ ws) = takeWhile is_digit r"
proof (cases ws)
  case Nil
  then show ?thesis by simp
next
  case (Cons a l)
  assume "\<forall>c \<in> set ws. is_space c"
  with Cons have "\<not> is_digit a" by (auto dest: is_digit_not_space)
  from takeWhile_digit_stop [OF this, of r l] Cons show ?thesis by simp
qed

lemma rtrim_decomp:
  "y = rev (dropWhile is_space (rev y)) @ rev (takeWhile is_space (rev y))"
  by (metis rev_append rev_rev_ident takeWhile_dropWhile_id)

lemma takeWhile_digit_rtrim:
  "takeWhile is_digit (rev (dropWhile is_space (rev y))) = takeWhile is_digit y"
proof -
  have "\<forall>c \<in> set (rev (takeWhile is_space (rev y))). is_space c"
    by (auto dest: set_takeWhileD)
  from takeWhile_digit_spaces [OF this] show ?thesis
    using rtrim_decomp [of y] by metis
qed

lemma takeWhile_digit_trim:
  "takeWhile is_digit (trim x) = takeWhile is_digit (dropWhile is_space x)"
  by (simp add: trim_def takeWhile_digit_rtrim)

lemma takeWhile_digit_first_line:
  "takeWhile is_digit (hd (split_lines_acc acc s)) = takeWhile is_digit (rev acc @ s)"
proof (induction s arbitrary: acc)
  case Nil
  show ?case by simp
next
  case (Cons c cs)
  show ?case
  proof (cases "c = LF")
    case True
    show ?thesis
    proof (cases acc)
      case Nil
      with True show ?thesis by (simp add: LF_not_digit)
    next
      case (Cons a acc')
      with True show ?thesis
        using takeWhile_digit_stop [OF CR_not_digit, of "rev acc'" "LF # cs"]
              takeWhile_digit_stop [OF LF_not_digit, of "rev acc' @ [a]" cs]
              takeWhile_digit_stop [OF CR_not_digit, of "rev acc'" "[]"]
        by simp
    qed
  next
    case False
    with Cons.IH [of "c # acc"] show ?thesis by simp
  qed
qed

lemma first_line_head:
  "rev acc @ s \<noteq> [] \<Longrightarrow> \<not> is_space (hd (rev acc @ s)) \<Longrightarrow>
   hd (split_lines_acc acc s) = [] \<or> hd (hd (split_lines_acc acc s)) = hd (rev acc @ s)"
proof (induction s arbitrary: acc)
  case Nil
  then show ?case by simp
next
  case (Cons c cs)
  show ?case
  proof (cases "c = LF")
    case True
    show ?thesis
    proof (cases acc)
      case Nil
      with True Cons.prems show ?thesis by (simp add: LF_space)
    next
      case (Cons a acc')
      with True show ?thesis by (cases "rev acc'") auto
    qed
  next
    case False
    with Cons.IH [of "c # acc"] Cons.prems show ?thesis by simp
  qed
qed

lemma trim_head: "trim a \<noteq> [] \<Longrightarrow> \<not> is_space (hd (trim a))"
proof -
  assume ne: "trim a \<noteq> []"
  let ?b = "dropWhile is_space a"
  have b: "?b = trim a @ rev (takeWhile is_space (rev ?b))"
    unfolding trim_def by (rule rtrim_decomp)
  from ne b have "hd (trim a) = hd ?b" by (metis hd_append2)
  moreover from ne have "?b \<noteq> []" unfolding trim_def by (cases ?b) simp_all
  ultimately show ?thesis by (metis hd_dropWhile)
qed

lemma leading_digits_first_line:
  "match_leading_digits (trim (hd (split_lines (trim a)))) =
   match_leading_digits (dropWhile is_space a)"
proof -
  let ?t = "trim a"
  let ?f = "hd (split_lines ?t)"
  have f: "takeWhile is_digit ?f = takeWhile is_digit ?t"
    using takeWhile_digit_first_line [of "[]" ?t] by (simp add: split_lines_def)
  have "dropWhile is_space ?f = ?f"
  proof (cases "?t = [] \<or> ?f = []")
    case True
    then show ?thesis by (auto simp: split_lines_def)
  next
    case False
    then have "hd ?f = hd ?t"
      using first_line_head [of "[]" ?t] trim_head [of a] by (auto simp: split_lines_def)
    with False trim_head [of a] show ?thesis by (cases ?f) auto
  qed
  then have "takeWhile is_digit (trim ?f) = takeWhile is_digit ?f"
    by (simp add: takeWhile_digit_trim)
  with f have "takeWhile is_digit (trim ?f) = takeWhile is_digit (dropWhile is_space a)"
    by (simp add: takeWhile_digit_trim)
  then show ?thesis by (simp add: match_leading_digits_def)
qed

lemma dropWhile_nondigit_spaces:
  "dropWhile (\<lambda>c. \<not> is_digit c) (dropWhile is_space a) = dropWhile (\<lambda>c. \<not> is_digit c) a"
  by (induction a) (auto dest: is_digit_not_space)

lemma leading_digits_any:
  "match_leading_digits s = Some ds \<Longrightarrow> match_any_digits s = Some ds"
  by (cases s) (auto simp: match_leading_digits_def match_any_digits_def Let_def split: if_splits)

lemma leading_digits_trimmed_any:
  assumes "match_leading_digits (dropWhile is_space a) = Some ds"
  shows "match_any_digits a = Some ds"
proof -
  from leading_digits_any [OF assms]
  show ?thesis by (simp add: match_any_digits_def dropWhile_nondigit_spaces)
qed

text \<open>
  What the parsing returns, for every reply: never an error; its number is the first run of
  decimal digits of the reply (the leading run of the first line, when there is one, is that
  run), read as a decimal number \<open>n\<close>; the category is the \<open>n\<close>-th of the list when
  \<open>1 \<le> n \<le> length categories\<close>, and none otherwise.
\<close>

lemma parse_llm_reply_any:
  "\<exists>r. parse_llm_reply a cats = Inr r \<and>
       llm_categoryId r =
         (case match_any_digits a of
            None \<Rightarrow> None
          | Some ds \<Rightarrow>
              if 1 \<le> parseInt ds \<and> parseInt ds \<le> length cats
              then Some (cat_id (cats ! (parseInt ds - 1))) else None)"
proof (cases "match_leading_digits (dropWhile is_space a)")
  case None
  then show ?thesis
    by (auto simp: parse_llm_reply_def leading_digits_first_line Let_def
          category_id_at_def split: option.splits)
next
  case (Some ds)
  from leading_digits_trimmed_any [OF Some] Some show ?thesis
    by (auto simp: parse_llm_reply_def leading_digits_first_line Let_def
          category_id_at_def split: option.splits)
qed

lemmas reply_defs = parse_llm_reply_def trim_def split_lines_def is_space_def is_digit_def
  match_leading_digits_def match_any_digits_def parseInt_def digit_val_def or_else_def
  category_id_at_def LF_def CR_def work_def receipts_def social_def

text \<open>The parsing at some replies, for the list Receipts, Work, Social.\<close>

lemma reply_number_and_reason:
  "parse_llm_reply (''2'' @ [LF] @ ''a meeting invitation'') [receipts, work, social]
     = Inr \<lparr>llm_categoryId = Some ''cat-work'', llm_reason = Some ''a meeting invitation''\<rparr>"
  by (simp add: reply_defs)

lemma reply_number_in_text:
  "parse_llm_reply ''The best match is 3.'' [receipts, work, social]
     = Inr \<lparr>llm_categoryId = Some ''cat-social'', llm_reason = Some ''The best match is 3.''\<rparr>"
  by (simp add: reply_defs)

lemma reply_zero:
  "parse_llm_reply (''0'' @ [LF] @ ''none applies'') [receipts, work, social]
     = Inr \<lparr>llm_categoryId = None, llm_reason = Some ''none applies''\<rparr>"
  by (simp add: reply_defs)

lemma reply_out_of_range:
  "parse_llm_reply ''4'' [receipts, work, social]
     = Inr \<lparr>llm_categoryId = None, llm_reason = Some ''4''\<rparr>"
  by (simp add: reply_defs)

lemma reply_without_number:
  "parse_llm_reply ''I cannot tell.'' [receipts, work, social]
     = Inr \<lparr>llm_categoryId = None, llm_reason = Some ''I cannot tell.''\<rparr>"
  by (simp add: reply_defs)

text \<open>
  Claim C8 (a defect of the code).  For the reply \<open>-1\<close>, whose number is below 1, the
  parsing chooses the first category of the list instead of none: the regular expressions
  take digits only, so that the sign is lost and the number read is 1.
\<close>

theorem negative_reply_selects_first:
  "parse_llm_reply ''-1'' [receipts, work, social]
     = Inr \<lparr>llm_categoryId = Some ''cat-receipts'', llm_reason = Some ''-1''\<rparr>"
  by (simp add: reply_defs)

section \<open>Properties of the classification engine\<close>

lemma llm_requests_getEmbedding:
  "getEmbedding P text st = (r, st') \<Longrightarrow> llm_requests st' = llm_requests st"
  by (auto simp: getEmbedding_def llm_requests_def)

lemma llm_requests_getCategoryEmbedding:
  "getCategoryEmbedding P k text st = (r, st') \<Longrightarrow> llm_requests st' = llm_requests st"
  by (auto simp: getCategoryEmbedding_def getEmbedding_def llm_requests_def Let_def
      split: option.splits if_splits sum.splits prod.splits)

lemma llm_requests_category_scores:
  "category_scores P e cs acc st = (r, st') \<Longrightarrow> llm_requests st' = llm_requests st"
proof (induction cs arbitrary: acc st)
  case Nil
  then show ?case by simp
next
  case (Cons c cs)
  obtain r1 st1 where g: "getCategoryEmbedding P (cat_id c) (category_text c) st = (r1, st1)"
    by (cases "getCategoryEmbedding P (cat_id c) (category_text c) st")
  from llm_requests_getCategoryEmbedding [OF g] have eq: "llm_requests st1 = llm_requests st" .
  show ?case
  proof (cases r1)
    case (Inl e)
    with Cons.prems g eq show ?thesis by simp
  next
    case (Inr emb)
    with Cons.prems g have "category_scores P e cs (acc @ [(cat_id c, cosineSimilarity e emb)]) st1 = (r, st')"
      by simp
    from Cons.IH [OF this] eq show ?thesis by simp
  qed
qed

lemma llm_requests_classifyByEmbeddings:
  assumes "classifyByEmbeddings P text cats th st = (r, st')"
  shows "llm_requests st' = llm_requests st"
proof (cases "cats = []")
  case True
  with assms show ?thesis by (simp add: classifyByEmbeddings_def)
next
  case False
  obtain r1 st1 where g: "getEmbedding P text st = (r1, st1)"
    by (cases "getEmbedding P text st")
  from llm_requests_getEmbedding [OF g] have eq1: "llm_requests st1 = llm_requests st" .
  show ?thesis
  proof (cases r1)
    case (Inl e)
    with assms False g eq1 show ?thesis by (simp add: classifyByEmbeddings_def)
  next
    case (Inr emb)
    obtain r2 st2 where c: "category_scores P emb cats [] st1 = (r2, st2)"
      by (cases "category_scores P emb cats [] st1")
    from llm_requests_category_scores [OF c] eq1 have eq2: "llm_requests st2 = llm_requests st"
      by simp
    from assms False g Inr c have "st' = st2"
      by (auto simp: classifyByEmbeddings_def split: sum.splits list.splits)
    with eq2 show ?thesis by simp
  qed
qed













lemma chooseCategoryWithLLM_requests:
  "cats \<noteq> [] \<Longrightarrow> chooseCategoryWithLLM P text cats st = (r, st') \<Longrightarrow>
   llm_requests st' = Suc (llm_requests st)"
  by (auto simp: chooseCategoryWithLLM_def llm_requests_def Let_def split: sum.splits if_splits)

lemma default_threshold_value:
  "default_threshold = Fin (3242591731706757 / 4503599627370496)"
  unfolding default_threshold_def by code_simp

lemma cosine_072_list:
  "cosineSimilarity [Fin 1, Fin 0, Fin 0, Fin 0, Fin 0] [Fin 18, Fin 3, Fin 6, Fin 16, Fin 0]
     = Fin (3242591731706757 / 4503599627370496)"
  by code_simp

lemma cosine_071_list:
  "cosineSimilarity [Fin 1, Fin 0, Fin 0, Fin 0, Fin 0] [Fin 71, Fin 70, Fin 7, Fin 3, Fin 1]
     = Fin (799388933858263 / 1125899906842624)"
  by code_simp

lemma cosine_zero_list:
  "cosineSimilarity [Fin 1, Fin 0, Fin 0, Fin 0, Fin 0] [Fin 0, Fin 1, Fin 0, Fin 0, Fin 0] = Fin 0"
  by code_simp

lemma cosine_rounded_list:
  "cosineSimilarity [Fin 1, Fin 2, Fin 0] [Fin 10, Fin 4, Fin 3]
     = Fin (6485183463413513 / 9007199254740992)"
  by code_simp

lemma cosine_orthogonal_list:
  "cosineSimilarity [Fin 1, Fin 2, Fin 0] [Fin 0, Fin 0, Fin 1] = Fin 0"
  by code_simp

lemmas cosine_values = cosine_072_list cosine_071_list cosine_zero_list cosine_rounded_list
  cosine_orthogonal_list


lemmas example_defs = example_provider_def example_categories_def initial_ai_state_def

lemmas stage_defs = classifyByEmbeddings_def getEmbedding_def getCategoryEmbedding_def
  category_text_def sort_scores_def chooseCategoryWithLLM_def
  classifyEmail_def classifyEmail_catch_def

lemma classifyEmail_catch_total:
  "\<exists>r st'. classifyEmail_catch P text cats e st = (Inr r, st')"
  by (auto simp: classifyEmail_catch_def split: prod.splits sum.splits)

lemma classifyEmail_total:
  "\<exists>r st'. classifyEmail P text cats th st = (Inr r, st')"
  using classifyEmail_catch_total
  by (auto simp: classifyEmail_def Let_def split: prod.splits sum.splits)








text \<open>
  Claim C7, as amended.  \<open>classifyEmail\<close> never raises to its caller.  When the embedding
  stage raises, the LLM stage is attempted once, as a last resort; when the embedding stage
  returns no category and the LLM tie-break raises, the LLM stage is attempted once more.  In
  both cases, when that last attempt raises as well, the result is
  \<^verbatim>\<open>{categoryId: null, method: "none"}\<close>.  When both stages return without a category and
  without raising, the result is \<^verbatim>\<open>{categoryId: null, method: "none"}\<close> at once: the LLM
  is not attempted again.
\<close>

theorem classifyEmail_failure_handling:
  assumes th: "\<theta> = (case threshold_opt of None \<Rightarrow> default_threshold | Some t \<Rightarrow> t)"
  shows "(\<exists>r st'. classifyEmail P emailText categories threshold_opt st = (Inr r, st')) \<and>
         (\<forall>e st1 e2 st2.
            classifyByEmbeddings P emailText categories \<theta> st = (Inl e, st1) \<and>
            chooseCategoryWithLLM P emailText categories st1 = (Inl e2, st2) \<longrightarrow>
            (\<exists>r. classifyEmail P emailText categories threshold_opt st = (Inr r, st2) \<and>
                 res_categoryId r = None \<and> res_method r = NoMethod \<and>
                 llm_requests st2 = llm_requests st + 1)) \<and>
         (\<forall>er st1 e1 st2 e2 st3.
            classifyByEmbeddings P emailText categories \<theta> st = (Inr er, st1) \<and>
            \<not> truthy (emb_categoryId er) \<and>
            chooseCategoryWithLLM P emailText categories st1 = (Inl e1, st2) \<and>
            chooseCategoryWithLLM P emailText categories st2 = (Inl e2, st3) \<longrightarrow>
            (\<exists>r. classifyEmail P emailText categories threshold_opt st = (Inr r, st3) \<and>
                 res_categoryId r = None \<and> res_method r = NoMethod \<and>
                 llm_requests st3 = llm_requests st + 2)) \<and>
         (\<forall>er st1 llm st2.
            categories \<noteq> [] \<and>
            classifyByEmbeddings P emailText categories \<theta> st = (Inr er, st1) \<and>
            \<not> truthy (emb_categoryId er) \<and>
            chooseCategoryWithLLM P emailText categories st1 = (Inr llm, st2) \<and>
            \<not> truthy (llm_categoryId llm) \<longrightarrow>
            (\<exists>r. classifyEmail P emailText categories threshold_opt st = (Inr r, st2) \<and>
                 res_categoryId r = None \<and> res_method r = NoMethod \<and>
                 llm_requests st2 = llm_requests st + 1))"
proof -
  have nonempty: "categories \<noteq> []" if "chooseCategoryWithLLM P emailText categories s = (Inl x, s')"
    for s x s'
    using that by (auto simp: chooseCategoryWithLLM_def)
  have A: "\<exists>r st'. classifyEmail P emailText categories threshold_opt st = (Inr r, st')"
    by (rule classifyEmail_total)
  have B: "\<exists>r. classifyEmail P emailText categories threshold_opt st = (Inr r, st2) \<and>
                 res_categoryId r = None \<and> res_method r = NoMethod \<and>
                 llm_requests st2 = llm_requests st + 1"
    if s1: "classifyByEmbeddings P emailText categories \<theta> st = (Inl e, st1)"
    and l1: "chooseCategoryWithLLM P emailText categories st1 = (Inl e2, st2)"
    for e st1 e2 st2
  proof -
    from chooseCategoryWithLLM_requests [OF nonempty [OF l1] l1]
      llm_requests_classifyByEmbeddings [OF s1]
    have "llm_requests st2 = llm_requests st + 1" by simp
    with s1 l1 th show ?thesis
      by (simp add: classifyEmail_def classifyEmail_catch_def)
  qed
  have C: "\<exists>r. classifyEmail P emailText categories threshold_opt st = (Inr r, st3) \<and>
                 res_categoryId r = None \<and> res_method r = NoMethod \<and>
                 llm_requests st3 = llm_requests st + 2"
    if s1: "classifyByEmbeddings P emailText categories \<theta> st = (Inr er, st1)"
    and f1: "\<not> truthy (emb_categoryId er)"
    and l1: "chooseCategoryWithLLM P emailText categories st1 = (Inl e1, st2)"
    and l2: "chooseCategoryWithLLM P emailText categories st2 = (Inl e2, st3)"
    for er st1 e1 st2 e2 st3
  proof -
    from chooseCategoryWithLLM_requests [OF nonempty [OF l1] l1]
      chooseCategoryWithLLM_requests [OF nonempty [OF l2] l2]
      llm_requests_classifyByEmbeddings [OF s1]
    have "llm_requests st3 = llm_requests st + 2" by simp
    with s1 f1 l1 l2 th show ?thesis
      by (simp add: classifyEmail_def classifyEmail_catch_def)
  qed
  have D: "\<exists>r. classifyEmail P emailText categories threshold_opt st = (Inr r, st2) \<and>
                 res_categoryId r = None \<and> res_method r = NoMethod \<and>
                 llm_requests st2 = llm_requests st + 1"
    if ne: "categories \<noteq> []"
    and s1: "classifyByEmbeddings P emailText categories \<theta> st = (Inr er, st1)"
    and f1: "\<not> truthy (emb_categoryId er)"
    and l1: "chooseCategoryWithLLM P emailText categories st1 = (Inr llm, st2)"
    and f2: "\<not> truthy (llm_categoryId llm)"
    for er st1 llm st2
  proof -
    from chooseCategoryWithLLM_requests [OF ne l1] llm_requests_classifyByEmbeddings [OF s1]
    have "llm_requests st2 = llm_requests st + 1" by simp
    with s1 f1 l1 f2 th show ?thesis
      by (simp add: classifyEmail_def)
  qed
  from A B C D show ?thesis by blast
qed

text \<open>
  The theorem at a provider whose every request fails: one last-resort LLM request, and the
  result \<open>none\<close>.
\<close>

theorem classifyEmail_failure_handling_witness:
  "res_categoryId (projr (fst (classifyEmail failing_provider ''mail'' example_categories None
      initial_ai_state))) = None \<and>
   res_method (projr (fst (classifyEmail failing_provider ''mail'' example_categories None
      initial_ai_state))) = NoMethod \<and>
   llm_requests (snd (classifyEmail failing_provider ''mail'' example_categories None
      initial_ai_state)) = 1"
proof -
  let ?st1 = "\<lparr>cache = Map.empty, calls = [EmbeddingsCall ''mail'']\<rparr>"
  let ?st2 = "\<lparr>cache = Map.empty, calls = [EmbeddingsCall ''mail'', ClassifyChatCall]\<rparr>"
  have h0: "default_threshold = (case None of None \<Rightarrow> default_threshold | Some t \<Rightarrow> t)" by simp
  have h1: "classifyByEmbeddings failing_provider ''mail'' example_categories default_threshold
      initial_ai_state = (Inl (Error ''AI provider responded with 500: down''), ?st1)"
    by (simp add: failing_provider_def example_defs classifyByEmbeddings_def getEmbedding_def)
  have h2: "chooseCategoryWithLLM failing_provider ''mail'' example_categories ?st1
      = (Inl (Error ''AI provider responded with 500: down''), ?st2)"
    by (simp add: failing_provider_def example_defs chooseCategoryWithLLM_def)
  have h3: "llm_requests initial_ai_state = 0" by (simp add: example_defs llm_requests_def)
  from classifyEmail_failure_handling [OF h0, of failing_provider "''mail''" example_categories
      initial_ai_state] h1 h2
  have "\<exists>r. classifyEmail failing_provider ''mail'' example_categories None initial_ai_state
           = (Inr r, ?st2) \<and> res_categoryId r = None \<and> res_method r = NoMethod \<and>
           llm_requests ?st2 = llm_requests initial_ai_state + 1"
    by blast
  with h3 show ?thesis by auto
qed

text \<open>
  Claim C7 as stated fails where neither stage produces a category and nothing raises: the
  embedding stage scores the only category 0, the LLM replies \<open>0\<close>, and \<open>classifyEmail\<close>
  returns \<open>none\<close> after a single LLM request; the LLM stage is not attempted once more.
\<close>

theorem classifyEmail_retry_counterexample:
  "fst (classifyByEmbeddings (example_provider [0, 1, 0, 0, 0] (Inr (Some ''0''))) ''mail''
      example_categories default_threshold initial_ai_state)
     = Inr \<lparr>emb_categoryId = None, emb_scores = [(''cat-receipts'', Fin 0)],
            emb_topScore = Some (Fin 0)\<rparr> \<and>
   fst (chooseCategoryWithLLM (example_provider [0, 1, 0, 0, 0] (Inr (Some ''0''))) ''mail''
      example_categories
      (snd (classifyByEmbeddings (example_provider [0, 1, 0, 0, 0] (Inr (Some ''0''))) ''mail''
         example_categories default_threshold initial_ai_state)))
     = Inr \<lparr>llm_categoryId = None, llm_reason = Some ''model returned 0''\<rparr> \<and>
   fst (classifyEmail (example_provider [0, 1, 0, 0, 0] (Inr (Some ''0''))) ''mail''
      example_categories None initial_ai_state)
     = Inr \<lparr>res_categoryId = None, res_method = NoMethod, res_scores = None,
            res_reason = Some ''model returned 0''\<rparr> \<and>
   llm_requests (snd (classifyEmail (example_provider [0, 1, 0, 0, 0] (Inr (Some ''0''))) ''mail''
      example_categories None initial_ai_state)) = 1"
  by (simp add: example_defs stage_defs cosine_values default_threshold_value js_ge_def
      truthy_def llm_requests_def Let_def parse_llm_reply_def trim_def split_lines_def is_space_def match_leading_digits_def
      is_digit_def parseInt_def digit_val_def or_else_def LF_def CR_def)

section \<open>Properties of the summarizer\<close>

lemmas string_defs = trim_def is_space_def LF_def CR_def split_lines_def is_digit_def

lemmas summary_defs = parse_summary_def match_summary_at_def summary_end_def ci_prefix_def
  upper_code_def strip_bullet_def

lemma actions_absent: "match_actions assistant = None \<Longrightarrow> actions (parse_summary assistant) = []"
  by (simp add: parse_summary_def)

lemma actions_empty:
  "match_actions assistant = Some cap \<Longrightarrow> trim cap = [] \<Longrightarrow>
   actions (parse_summary assistant) = []"
  by (simp add: parse_summary_def)

lemma summarizeEmail_no_text:
  "summarize_request P (length (calls st)) emailText = Inr None \<Longrightarrow>
   fst (summarizeEmail P emailText st) = Inl (Error ''No summary returned from LLM'')"
  by (simp add: summarizeEmail_def truthy_def Let_def)

lemma summary_whole_reply:
  "parse_summary ''Summary: Hello world''
     = \<lparr>summary = ''Summary: Hello world'', actions = []\<rparr>"
  by (simp add: summary_defs string_defs)

text \<open>
  Claim C9 (a defect of the code).  For the reply
  \<^verbatim>\<open>Summary: Your prize is ready\nActions:\n- Claim it\<close> the summary returned is \<open>Your pri\<close>,
  not the text of the \<open>Summary:\<close> section: the capture stops at the first letter \<open>z\<close>.
\<close>

theorem summary_truncated_at_z:
  "parse_summary example_reply = \<lparr>summary = ''Your pri'', actions = [''Claim it'']\<rparr>"
  by (simp add: example_reply_def summary_defs string_defs)

section \<open>Properties of the ingestion pipeline\<close>

lemma filter_distinct_key:
  "distinct (map f xs) \<Longrightarrow> x \<in> set xs \<Longrightarrow> filter (\<lambda>y. f y = f x) xs = [x]"
proof (induction xs)
  case Nil
  then show ?case by simp
next
  case (Cons a xs)
  show ?case
  proof (cases "a = x")
    case True
    from Cons.prems True have "\<forall>y \<in> set xs. f y \<noteq> f x" by (metis distinct.simps(2) image_eqI list.simps(9) list.set_map)
    then have "filter (\<lambda>y. f y = f x) xs = []" by (simp add: filter_empty_conv)
    with True show ?thesis by simp
  next
    case False
    with Cons.prems have x: "x \<in> set xs" by simp
    with Cons.prems have "f a \<noteq> f x" by auto
    with Cons.IH Cons.prems x show ?thesis by simp
  qed
qed

lemma single_stored:
  assumes "distinct (map e_gmail_message_id rows)" and "r \<in> set rows"
      and "e_gmail_message_id r = mid"
  shows "single_by_gmail_id rows mid = Some r"
  using filter_distinct_key [OF assms(1,2)] assms(3) by (simp add: single_by_gmail_id_def)

lemma process_message_stored:
  assumes "\<not> emails_select_fails env (length (events (ls_st ls))) mid"
      and "distinct (map e_gmail_message_id (emails (ls_st ls)))"
      and "r \<in> set (emails (ls_st ls))" and "e_gmail_message_id r = mid"
  shows "process_message env accountId inboxId cs mid ls = emit (DupCheck mid) ls"
  using single_stored [OF assms(2,3,4)] assms(1)
  by (simp add: process_message_def select_existing_def emit_def Let_def)

lemmas sync_example_defs = example_sync_env_def example_payload_def inbox_category_def
  work_category_def empty_storage_def stored_row_def

lemmas sync_defs = POST_sync_def process_message_def emit_def push_error_def
  select_existing_def single_by_gmail_id_def insert_email_def violates_unique_def
  header_value_def extract_body_def
  sync_classifyEmail_def sync_fallback_def first_category_id_def synthesized_summary_def
  is_inbox_def lower_code_def truthy_def or_else_def new_inbox_def

text \<open>
  Claim C2 (a defect of the code).  The duplicate check looks a message up by its Gmail
  message id alone, over the rows of every account, with \<^verbatim>\<open>.single()\<close>, and reads the data
  of the answer only.  Two runs for the account \<open>acct-A\<close> over a page with the message
  \<open>m1\<close>, which is stored for that account already.  In the first run the same Gmail
  message id is stored for the account \<open>acct-B\<close> as well: the query matches two rows and
  gives no data.  In the second run the query fails.  In both the message is not skipped:
  after the duplicate check the full message is fetched, the AI provider is requested, and
  the insertion is attempted and refused by the table's constraint; the run imports nothing
  and reports an error for the message.
\<close>

theorem duplicate_not_skipped:
  "POST_sync (example_sync_env (Some ''key'') [inbox_category, work_category] [''m1''])
     \<lparr>emails = [stored_row ''acct-A'' ''m1'', stored_row ''acct-B'' ''m1''], events = []\<rparr>
     = (SyncDone 0 1
          [''Failed to import email: Your order has shipped - duplicate key value violates unique constraint''],
        \<lparr>emails = [stored_row ''acct-A'' ''m1'', stored_row ''acct-B'' ''m1''],
         events = [DupCheck ''m1'', FetchFull ''m1'', AiFetch ''m1'', InsertEmail ''m1'',
                   UpdateLastSync]\<rparr>) \<and>
   POST_sync ((example_sync_env (Some ''key'') [inbox_category, work_category] [''m1''])
                \<lparr>emails_select_fails := (\<lambda>k mid. True)\<rparr>)
     \<lparr>emails = [stored_row ''acct-A'' ''m1''], events = []\<rparr>
     = (SyncDone 0 1
          [''Failed to import email: Your order has shipped - duplicate key value violates unique constraint''],
        \<lparr>emails = [stored_row ''acct-A'' ''m1''],
         events = [DupCheck ''m1'', FetchFull ''m1'', AiFetch ''m1'', InsertEmail ''m1'',
                   UpdateLastSync]\<rparr>)"
  by (simp add: sync_example_defs sync_defs Let_def)

text \<open>What a run without classification categories adds to the state.\<close>

lemma process_message_inbox:
  "\<exists>new evs.
     emails (ls_st (process_message env a cid [] mid ls)) = emails (ls_st ls) @ new \<and>
     list_all (inbox_row cid) new \<and>
     events (ls_st (process_message env a cid [] mid ls)) = events (ls_st ls) @ evs \<and>
     list_all (\<lambda>ev. \<not> is_ai_fetch ev) evs \<and>
     ls_imported (process_message env a cid [] mid ls) = ls_imported ls + length new"
  by (auto simp: process_message_def emit_def push_error_def Let_def inbox_row_def
      split: option.splits get_result.splits)

lemma process_messages_inbox:
  "\<exists>new evs.
     emails (ls_st (process_messages env a cid [] mids ls)) = emails (ls_st ls) @ new \<and>
     list_all (inbox_row cid) new \<and>
     events (ls_st (process_messages env a cid [] mids ls)) = events (ls_st ls) @ evs \<and>
     list_all (\<lambda>ev. \<not> is_ai_fetch ev) evs \<and>
     ls_imported (process_messages env a cid [] mids ls) = ls_imported ls + length new"
proof (induction mids arbitrary: ls)
  case Nil
  show ?case by simp
next
  case (Cons mid mids)
  let ?ls1 = "process_message env a cid [] mid ls"
  from process_message_inbox [of env a cid mid ls] obtain new1 evs1 where
    s1: "emails (ls_st ?ls1) = emails (ls_st ls) @ new1" "list_all (inbox_row cid) new1"
        "events (ls_st ?ls1) = events (ls_st ls) @ evs1" "list_all (\<lambda>ev. \<not> is_ai_fetch ev) evs1"
        "ls_imported ?ls1 = ls_imported ls + length new1"
    by blast
  from Cons.IH [of ?ls1] obtain new2 evs2 where
    s2: "emails (ls_st (process_messages env a cid [] mids ?ls1)) = emails (ls_st ?ls1) @ new2"
        "list_all (inbox_row cid) new2"
        "events (ls_st (process_messages env a cid [] mids ?ls1)) = events (ls_st ?ls1) @ evs2"
        "list_all (\<lambda>ev. \<not> is_ai_fetch ev) evs2"
        "ls_imported (process_messages env a cid [] mids ?ls1) = ls_imported ?ls1 + length new2"
    by blast
  show ?case
    apply (rule exI [of _ "new1 @ new2"])
    apply (rule exI [of _ "evs1 @ evs2"])
    using s1 s2 by simp
qed

lemma only_inbox_filter:
  assumes "\<forall>c \<in> set categories. is_inbox c" and "is_inbox inbox"
  shows "filter (\<lambda>c. \<not> is_inbox c)
           (if find (\<lambda>c. cat_id c = cat_id inbox) categories = None
            then categories @ [inbox] else categories) = []"
  using assms by (auto simp: filter_empty_conv)

lemma find_is_inbox: "find is_inbox categories = Some c \<Longrightarrow> is_inbox c"
  by (auto simp: find_Some_iff)

lemma new_inbox_is_inbox: "is_inbox (new_inbox i)"
  by (simp add: new_inbox_def is_inbox_def lower_code_def)

text \<open>
  Claim C5.  For a user whose categories are all named inbox (in any case; none at all
  included, the Inbox category being created then), every record a run imports carries the
  id of the Inbox category and the summary \<open>Email from {sender}: {subject}\<close> of its own
  sender and subject, the number of imported records is the number of rows added, and the
  run makes no request to the AI provider.
\<close>

theorem only_inbox_no_ai:
  assumes cats: "categories_query env = Inr categories"
      and only_inbox: "\<forall>c \<in> set categories. is_inbox c"
      and run: "POST_sync env s = (resp, s')"
  shows "\<exists>new evs.
           emails s' = emails s @ new \<and>
           (\<forall>r \<in> set new. e_category_id r = inbox_id env categories \<and>
              e_summarized_text r = ''Email from '' @ e_from_email r @ '': '' @ e_subject r) \<and>
           events s' = events s @ evs \<and>
           (\<forall>ev \<in> set evs. \<not> is_ai_fetch ev) \<and>
           (\<forall>n k errs. resp = SyncDone n k errs \<longrightarrow> n = length new)"
proof -
  have trivial: ?thesis if "s' = s" "\<forall>n k errs. resp \<noteq> SyncDone n k errs"
    using that by (intro exI [of _ "[]"]) simp
  show ?thesis
  proof (cases "\<exists>n k errs. resp = SyncDone n k errs")
    case False
    with run cats have "s' = s"
      by (auto simp: POST_sync_def Let_def split: if_splits sum.splits list_result.splits)
    with False trivial show ?thesis by blast
  next
    case True
    then obtain n k errs where resp: "resp = SyncDone n k errs" by blast
    let ?found = "case find is_inbox categories of Some c \<Rightarrow> Inr c
                  | None \<Rightarrow> map_sum (\<lambda>e. e) new_inbox (inbox_insert env)"
    from run resp cats obtain inboxC where ic: "?found = Inr inboxC"
      by (cases ?found) (auto simp: POST_sync_def Let_def split: if_splits)
    from ic have cid: "inbox_id env categories = Some (cat_id inboxC)"
      by (cases "inbox_insert env")
         (auto simp: inbox_id_def new_inbox_def split: option.splits)
    from ic have inb: "is_inbox inboxC"
      by (cases "inbox_insert env")
         (auto simp: new_inbox_is_inbox find_is_inbox split: option.splits)
    note flt = only_inbox_filter [OF only_inbox inb]
    from run resp cats ic obtain messages estimate where
      page: "gmail_list env = ListOk messages estimate" and
      res: "s' = (ls_st (process_messages env (the (accountId_param env)) (cat_id inboxC) []
                    messages \<lparr>ls_st = s, ls_imported = 0, ls_errors = []\<rparr>))
                 \<lparr>events := events (ls_st (process_messages env (the (accountId_param env))
                    (cat_id inboxC) [] messages \<lparr>ls_st = s, ls_imported = 0, ls_errors = []\<rparr>))
                    @ [UpdateLastSync]\<rparr>" and
      cnt: "n = ls_imported (process_messages env (the (accountId_param env)) (cat_id inboxC) []
                    messages \<lparr>ls_st = s, ls_imported = 0, ls_errors = []\<rparr>)"
      using flt
      by (cases "gmail_list env")
         (auto simp: POST_sync_def Let_def split: if_splits)
    from process_messages_inbox [of env "the (accountId_param env)" "cat_id inboxC" messages
        "\<lparr>ls_st = s, ls_imported = 0, ls_errors = []\<rparr>"]
    obtain new evs where
      l: "emails (ls_st (process_messages env (the (accountId_param env)) (cat_id inboxC) []
            messages \<lparr>ls_st = s, ls_imported = 0, ls_errors = []\<rparr>)) = emails s @ new"
         "list_all (inbox_row (cat_id inboxC)) new"
         "events (ls_st (process_messages env (the (accountId_param env)) (cat_id inboxC) []
            messages \<lparr>ls_st = s, ls_imported = 0, ls_errors = []\<rparr>)) = events s @ evs"
         "list_all (\<lambda>ev. \<not> is_ai_fetch ev) evs"
         "ls_imported (process_messages env (the (accountId_param env)) (cat_id inboxC) []
            messages \<lparr>ls_st = s, ls_imported = 0, ls_errors = []\<rparr>) = length new"
      by auto
    show ?thesis
      apply (rule exI [of _ new])
      apply (rule exI [of _ "evs @ [UpdateLastSync]"])
      using l res cnt cid resp
      by (auto simp: list_all_iff inbox_row_def synthesized_summary_def)
  qed
qed

text \<open>The theorem at a run that imports one message for a user whose only category is Inbox.\<close>

theorem only_inbox_no_ai_witness:
  "length (emails (snd (POST_sync (example_sync_env (Some ''key'') [inbox_category] [''m1''])
      empty_storage))) = 1 \<and>
   list_all (\<lambda>r. e_category_id r = Some ''cat-inbox'' \<and>
                 e_summarized_text r = ''Email from shop@example.com: Your order has shipped'')
     (emails (snd (POST_sync (example_sync_env (Some ''key'') [inbox_category] [''m1''])
        empty_storage))) \<and>
   list_all (\<lambda>ev. \<not> is_ai_fetch ev)
     (events (snd (POST_sync (example_sync_env (Some ''key'') [inbox_category] [''m1''])
        empty_storage)))"
proof -
  let ?env = "example_sync_env (Some ''key'') [inbox_category] [''m1'']"
  let ?run = "POST_sync ?env empty_storage"
  have h1: "categories_query ?env = Inr [inbox_category]" by (simp add: example_sync_env_def)
  have h2: "\<forall>c \<in> set [inbox_category]. is_inbox c"
    by (simp add: inbox_category_def is_inbox_def lower_code_def)
  have h3: "?run = (fst ?run, snd ?run)" by simp
  have id: "inbox_id ?env [inbox_category] = Some ''cat-inbox''"
    by (simp add: inbox_id_def inbox_category_def is_inbox_def lower_code_def)
  have rows: "map (\<lambda>r. (e_from_email r, e_subject r)) (emails (snd ?run))
      = [(''shop@example.com'', ''Your order has shipped'')]"
    by (simp add: sync_example_defs sync_defs Let_def)
  from only_inbox_no_ai [OF h1 h2 h3] obtain new evs where
    n: "emails (snd ?run) = emails empty_storage @ new"
       "\<forall>r \<in> set new. e_category_id r = inbox_id ?env [inbox_category] \<and>
          e_summarized_text r = ''Email from '' @ e_from_email r @ '': '' @ e_subject r"
       "events (snd ?run) = events empty_storage @ evs"
       "\<forall>ev \<in> set evs. \<not> is_ai_fetch ev"
    by blast
  from n(1) have e: "emails (snd ?run) = new" by (simp add: empty_storage_def)
  from n(3) have v: "events (snd ?run) = evs" by (simp add: empty_storage_def)
  from rows e obtain r where new: "new = [r]" "e_from_email r = ''shop@example.com''"
    "e_subject r = ''Your order has shipped''"
    by (cases new) auto
  with n(2) id have "e_category_id r = Some ''cat-inbox'' \<and>
     e_summarized_text r = ''Email from shop@example.com: Your order has shipped''"
    by simp
  with new e v n(4) show ?thesis by (simp add: list_all_iff)
qed

text \<open>
  The fallback of the sync route's \<open>classifyEmail\<close>: with no provider key, with a request
  that throws or is answered with a non-OK status, a body that is not JSON, no content, or a
  content that does not parse, the result is the first category of the list the function is
  given and the synthesized summary.  That list is \<open>classificationCategories\<close>, from which
  the Inbox category has been filtered out.
\<close>

lemma sync_classifyEmail_no_key:
  "\<not> truthy (openrouter_key env) \<Longrightarrow> \<not> truthy (openai_key env) \<Longrightarrow>
   sync_classifyEmail env k subject body sender cs = (sync_fallback subject sender cs, False)"
  by (simp add: sync_classifyEmail_def)

lemma sync_classifyEmail_failed_request:
  "ai_fetch env k subject body sender cs = AiThrows e \<or>
   ai_fetch env k subject body sender cs = AiNotOk \<or>
   ai_fetch env k subject body sender cs = AiJsonThrows e \<or>
   ai_fetch env k subject body sender cs = AiContent None \<or>
   ai_fetch env k subject body sender cs = AiContent (Some []) \<or>
   (ai_fetch env k subject body sender cs = AiContent (Some content) \<and>
    json_parse env content = Inl e) \<Longrightarrow>
   fst (sync_classifyEmail env k subject body sender cs) = sync_fallback subject sender cs"
  by (auto simp: sync_classifyEmail_def truthy_def)

lemma sync_fallback_first_category:
  "sync_fallback subject sender (c # cs) =
     \<lparr>sc_categoryId = Some (cat_id c), sc_summary = ''Email from '' @ sender @ '': '' @ subject\<rparr>"
  by (simp add: sync_fallback_def first_category_id_def synthesized_summary_def)

lemma ai_not_ok_first_category:
  "map e_category_id (emails (snd (POST_sync
      (example_sync_env (Some ''key'') [inbox_category, work_category] [''m1'']) empty_storage)))
     = [Some ''cat-work'']"
  by (simp add: sync_example_defs sync_defs Let_def)

text \<open>
  Claim C1 (a defect of the code).  A user has the categories Inbox and Work and no
  provider key is configured.  The message of the run is stored with the category Work, the
  first classification category, and not with the Inbox category; the summary is the
  synthesized one and the run reports no error.
\<close>

theorem ai_failure_first_category:
  "emails (snd (POST_sync (example_sync_env None [inbox_category, work_category] [''m1''])
      empty_storage))
     = [\<lparr>e_google_account_id = ''acct-A'', e_gmail_message_id = ''m1'',
         e_category_id = Some ''cat-work'', e_subject = ''Your order has shipped'',
         e_from_email = ''shop@example.com'', e_date = ''2024-01-01T10:00:00.000Z'',
         e_raw_text = ''Order #123 total $49.99'',
         e_summarized_text = ''Email from shop@example.com: Your order has shipped''\<rparr>]"
  by (simp add: sync_example_defs sync_defs Let_def)

section \<open>Properties of the unsubscribe endpoint\<close>

lemmas unsub_example_defs = example_unsub_env_def example_email_def initial_unsub_state_def

lemmas unsub_defs = unsubscribeEmail_def try_unsubscribe_def find_list_unsubscribe_def
  link_of_def pending_attempt_def MAX_RETRIES_def lower_code_def

lemma unsubscribe_loop_emailId:
  "r_emailId (fst (unsubscribe_loop env email k s)) = u_id email"
proof (induction env email k s rule: unsubscribe_loop.induct)
  case (1 env email retries s)
  show ?case
  proof (cases "try_unsubscribe env email retries s")
    case (Pair r s')
    show ?thesis
    proof (cases r)
      case (Inl e)
      with Pair 1 show ?thesis
        by (subst unsubscribe_loop.simps) (auto simp: Let_def)
    next
      case (Inr res)
      with Pair have "r_emailId res = u_id email"
        by (auto simp: try_unsubscribe_def Let_def split: gmail_message.splits option.splits)
      with Pair Inr show ?thesis
        by (subst unsubscribe_loop.simps) simp
    qed
  qed
qed

lemma unsubscribe_all_ids:
  "map r_emailId (fst (unsubscribe_all env emailList s)) = map u_id emailList"
proof (induction emailList arbitrary: s)
  case Nil
  show ?case by simp
next
  case (Cons email emailList)
  obtain r s' where u: "unsubscribeEmail env email s = (r, s')"
    by (cases "unsubscribeEmail env email s")
  obtain rs s'' where v: "unsubscribe_all env emailList s' = (rs, s'')"
    by (cases "unsubscribe_all env emailList s'")
  from u have "r_emailId r = u_id email"
    using unsubscribe_loop_emailId [of env email 0 s] by (simp add: unsubscribeEmail_def)
  moreover from v Cons.IH [of s'] have "map r_emailId rs = map u_id emailList" by simp
  ultimately show ?case using u v by simp
qed

text \<open>
  Claim C3, as amended.  The endpoint runs no link extractor and has no status \<open>no_link\<close>:
  for every email whose message has no \<open>List-Unsubscribe\<close> header, when the Gmail calls of
  an attempt succeed, the message gets the label SPAM and the per-item outcome is a success
  with the message \<open>Marked as spam (no unsubscribe header)\<close>; the batch continues: every
  email of the account, before and after it, has its own entry in the results.
\<close>

theorem no_header_marked_as_spam:
  assumes attempt: "retries < MAX_RETRIES"
      and get: "messages_get env email retries = Message (Some headers)"
      and no_header: "find_list_unsubscribe headers = None"
      and modify: "messages_modify env email retries = None"
  shows "fst (unsubscribe_loop env email retries s) =
           \<lparr>r_emailId = u_id email, r_success = True,
            r_message = ''Marked as spam (no unsubscribe header)'', r_retries = Some retries\<rparr> \<and>
         gmail_actions (snd (unsubscribe_loop env email retries s)) =
           gmail_actions s @ [AddLabel (u_gmail_message_id email) ''SPAM''] \<and>
         map r_emailId (fst (unsubscribe_all env (before @ email # after) s0)) =
           map u_id before @ u_id email # map u_id after"
proof -
  let ?ok = "\<lparr>r_emailId = u_id email, r_success = True,
            r_message = ''Marked as spam (no unsubscribe header)'', r_retries = Some retries\<rparr>"
  obtain r s' where t: "try_unsubscribe env email retries s = (r, s')"
    by (cases "try_unsubscribe env email retries s")
  with assms have r: "r = Inr ?ok"
    by (auto simp: try_unsubscribe_def Let_def)
  from t assms have a: "gmail_actions s' =
      gmail_actions s @ [AddLabel (u_gmail_message_id email) ''SPAM'']"
    by (auto simp: try_unsubscribe_def Let_def)
  from t r attempt have "unsubscribe_loop env email retries s = (?ok, s')"
    by (subst unsubscribe_loop.simps) simp
  with a have
    "fst (unsubscribe_loop env email retries s) = ?ok \<and>
     gmail_actions (snd (unsubscribe_loop env email retries s)) =
           gmail_actions s @ [AddLabel (u_gmail_message_id email) ''SPAM'']"
    by simp
  with unsubscribe_all_ids [of env "before @ email # after" s0] show ?thesis by simp
qed

text \<open>The theorem at the second of three emails, none with the header.\<close>

theorem no_header_marked_as_spam_witness:
  "fst (unsubscribeEmail (example_unsub_env [(''Subject'', ''Sale'')] False False)
      (example_email ''e2'') initial_unsub_state) =
     \<lparr>r_emailId = ''e2'', r_success = True,
      r_message = ''Marked as spam (no unsubscribe header)'', r_retries = Some 0\<rparr> \<and>
   map r_emailId (fst (unsubscribe_all (example_unsub_env [(''Subject'', ''Sale'')] False False)
      [example_email ''e1'', example_email ''e2'', example_email ''e3''] initial_unsub_state)) =
     [''e1'', ''e2'', ''e3'']"
proof -
  let ?env = "example_unsub_env [(''Subject'', ''Sale'')] False False"
  have h1: "0 < MAX_RETRIES" by (simp add: MAX_RETRIES_def)
  have h2: "messages_get ?env (example_email ''e2'') 0 = Message (Some (Some [(''Subject'', ''Sale'')]))"
    by (simp add: example_unsub_env_def)
  have h3: "find_list_unsubscribe (Some [(''Subject'', ''Sale'')]) = None"
    by (simp add: find_list_unsubscribe_def lower_code_def)
  have h4: "messages_modify ?env (example_email ''e2'') 0 = None"
    by (simp add: example_unsub_env_def)
  from no_header_marked_as_spam [OF h1 h2 h3 h4, of initial_unsub_state "[example_email ''e1'']"
      "[example_email ''e3'']" initial_unsub_state]
  show ?thesis by (simp add: unsubscribeEmail_def example_email_def)
qed

text \<open>
  Claim C3 as stated fails: for a message without the header (and with no link anywhere) the
  recorded outcome is a success, not a distinct status \<open>no_link\<close>.
\<close>

theorem no_link_counterexample:
  "find_list_unsubscribe (Some [(''Subject'', ''Sale'')]) = None \<and>
   fst (unsubscribeEmail (example_unsub_env [(''Subject'', ''Sale'')] False False)
      (example_email ''e1'') initial_unsub_state) =
     \<lparr>r_emailId = ''e1'', r_success = True,
      r_message = ''Marked as spam (no unsubscribe header)'', r_retries = Some 0\<rparr>"
  by (simp add: unsub_example_defs unsub_defs unsubscribe_loop.simps [of _ _ 0] Let_def)

lemma count_results_status:
  "foldl (\<lambda>res email. count_result (account_error e email) res) results emailList =
     results\<lparr>failed := failed results + length emailList,
       details := details results @ map (account_error e) emailList\<rparr>"
  by (induction emailList arbitrary: results) (auto simp: count_result_def account_error_def)

lemma process_chunks_result:
  "isl (fst (process_chunks env batches rs)) \<longleftrightarrow> list_ex (\<lambda>b. isl (emails_query env b)) batches"
proof (induction env batches rs rule: process_chunks.induct)
  case (1 env results s)
  show ?case by simp
next
  case (2 env batch batches results s)
  show ?case
  proof (cases "emails_query env batch")
    case (Inl msg)
    then show ?thesis by simp
  next
    case (Inr emailList)
    show ?thesis
    proof (cases "emailList = []")
      case True
      with Inr 2(1) show ?thesis by simp
    next
      case False
      obtain groups results' where g: "group_emails emailList [] results = (groups, results')"
        by (cases "group_emails emailList [] results")
      obtain r2 s2 where f: "foldl (\<lambda>rs grp. process_account env grp rs) (results', s) groups = (r2, s2)"
        by (cases "foldl (\<lambda>rs grp. process_account env grp rs) (results', s) groups")
      from 2(2) [OF Inr False g [symmetric]] Inr False g f show ?thesis by simp
    qed
  qed
qed


text \<open>
  Claim C6, as amended.  The endpoint answers 400, with nothing processed, exactly when
  \<open>emailIds\<close> is not an array or is empty.  It answers 500 when the request body cannot be
  read or when the query for the rows of a chunk fails.  In every other case it answers 200;
  a failed Google authentication of an account does not fail the call: each email of the
  account gets a failed entry with the message \<open>Account error: ...\<close> and nothing else is
  done for it.
\<close>

theorem unsubscribe_status:
  "status (fst (POST_unsubscribe env body s)) =
     (case body of
        BodyThrows e \<Rightarrow> 500
      | Body NotAnArray \<Rightarrow> 400
      | Body (IdList emailIds) \<Rightarrow>
          if emailIds = [] then 400
          else if list_ex (\<lambda>batch. isl (emails_query env batch)) (chunks emailIds) then 500
          else 200) \<and>
   (status (fst (POST_unsubscribe env body s)) = 400 \<longrightarrow> snd (POST_unsubscribe env body s) = s) \<and>
   (\<forall>account emailList e results s1.
      getGoogleClient env account = Some e \<longrightarrow>
      process_account env (account, emailList) (results, s1) =
        (results\<lparr>failed := failed results + length emailList,
           details := details results @ map (account_error e) emailList\<rparr>, s1))"
proof -
  have A: "status (fst (POST_unsubscribe env body s)) =
     (case body of
        BodyThrows e \<Rightarrow> 500
      | Body NotAnArray \<Rightarrow> 400
      | Body (IdList emailIds) \<Rightarrow>
          if emailIds = [] then 400
          else if list_ex (\<lambda>batch. isl (emails_query env batch)) (chunks emailIds) then 500
          else 200)"
  proof (cases body)
    case (BodyThrows e)
    then show ?thesis by (simp add: POST_unsubscribe_def)
  next
    case (Body ids)
    show ?thesis
    proof (cases ids)
      case NotAnArray
      with Body show ?thesis by (simp add: POST_unsubscribe_def)
    next
      case (IdList emailIds)
      let ?init = "(\<lparr>successful = 0, failed = 0, skipped = 0, total_count = length emailIds,
                      details = []\<rparr>, s)"
      obtain r s' where p: "process_chunks env (chunks emailIds) ?init = (r, s')"
        by (cases "process_chunks env (chunks emailIds) ?init")
      from process_chunks_result [of env "chunks emailIds" ?init] p
      have "isl r \<longleftrightarrow> list_ex (\<lambda>batch. isl (emails_query env batch)) (chunks emailIds)"
        by simp
      with Body IdList p show ?thesis
        by (cases r) (auto simp: POST_unsubscribe_def)
    qed
  qed
  have B: "snd (POST_unsubscribe env body s) = s" if "status (fst (POST_unsubscribe env body s)) = 400"
    using that
    by (auto simp: POST_unsubscribe_def split: request_body.splits email_ids.splits if_splits
        prod.splits sum.splits)
  have C: "process_account env (account, emailList) (results, s1) =
        (results\<lparr>failed := failed results + length emailList,
           details := details results @ map (account_error e) emailList\<rparr>, s1)"
    if "getGoogleClient env account = Some e" for account emailList e results s1
    using that by (simp add: process_account_def count_results_status)
  from A B C show ?thesis by blast
qed

lemmas post_defs = POST_unsubscribe_def process_account_def count_result_def account_error_def
  BATCH_SIZE_def

text \<open>
  The theorem at a batch of two emails, at an empty list of ids, and at an account whose
  authentication fails.
\<close>

theorem unsubscribe_status_witness:
  "status (fst (POST_unsubscribe
      (example_unsub_env [(''List-Unsubscribe'', ''<https://example.com/u/1>'')] False False)
      (Body (IdList [''e1'', ''e2''])) initial_unsub_state)) = 200 \<and>
   status (fst (POST_unsubscribe
      (example_unsub_env [(''List-Unsubscribe'', ''<https://example.com/u/1>'')] False False)
      (Body (IdList [])) initial_unsub_state)) = 400 \<and>
   snd (POST_unsubscribe
      (example_unsub_env [(''List-Unsubscribe'', ''<https://example.com/u/1>'')] False False)
      (Body (IdList [])) initial_unsub_state) = initial_unsub_state \<and>
   process_account
      (example_unsub_env [(''List-Unsubscribe'', ''<https://example.com/u/1>'')] True False)
      (\<lparr>ga_id = ''acct-A'', ga_email = ''user@example.com''\<rparr>, [example_email ''e1''])
      (\<lparr>successful = 0, failed = 0, skipped = 0, total_count = 1, details = []\<rparr>,
       initial_unsub_state) =
     (\<lparr>successful = 0, failed = 1, skipped = 0, total_count = 1,
       details = [account_error (Error ''Failed to obtain Google access token'')
                    (example_email ''e1'')]\<rparr>, initial_unsub_state)"
proof -
  let ?env = "example_unsub_env [(''List-Unsubscribe'', ''<https://example.com/u/1>'')] False False"
  have c: "chunks [''e1'', ''e2''] = [[''e1'', ''e2'']]"
    by (simp add: chunks.simps [of "[''e1'', ''e2'']"] chunks.simps [of "[]"] BATCH_SIZE_def)
  have q: "\<not> list_ex (\<lambda>batch. isl (emails_query ?env batch)) [[''e1'', ''e2'']]"
    by (simp add: example_unsub_env_def)
  let ?env' = "example_unsub_env [(''List-Unsubscribe'', ''<https://example.com/u/1>'')] True False"
  have a: "getGoogleClient ?env' \<lparr>ga_id = ''acct-A'', ga_email = ''user@example.com''\<rparr>
      = Some (Error ''Failed to obtain Google access token'')"
    by (simp add: example_unsub_env_def)
  from unsubscribe_status [of ?env' "Body (IdList [''e1''])" initial_unsub_state] a
  have p: "process_account ?env'
      (\<lparr>ga_id = ''acct-A'', ga_email = ''user@example.com''\<rparr>, [example_email ''e1''])
      (\<lparr>successful = 0, failed = 0, skipped = 0, total_count = 1, details = []\<rparr>,
       initial_unsub_state) =
     (\<lparr>successful = 0, failed = 0, skipped = 0, total_count = 1, details = []\<rparr>
        \<lparr>failed := failed \<lparr>successful = 0, failed = 0, skipped = 0, total_count = 1,
                     details = []\<rparr> + length [example_email ''e1''],
         details := details \<lparr>successful = 0, failed = 0, skipped = 0, total_count = 1,
                     details = []\<rparr> @
           map (account_error (Error ''Failed to obtain Google access token''))
             [example_email ''e1'']\<rparr>, initial_unsub_state)"
    by blast
  from unsubscribe_status [of ?env "Body (IdList [''e1'', ''e2''])" initial_unsub_state]
       unsubscribe_status [of ?env "Body (IdList [])" initial_unsub_state] c q p
  show ?thesis by simp
qed

text \<open>
  Claim C6 as stated fails in both directions: when the authentication of the account fails
  the response is 200, with a failed entry for the email; and when the query for the rows
  fails, for a well-formed request and with no authentication failure, the response is 500.
\<close>

theorem unsubscribe_status_counterexample:
  "fst (POST_unsubscribe
      (example_unsub_env [(''List-Unsubscribe'', ''<https://example.com/u/1>'')] True False)
      (Body (IdList [''e1''])) initial_unsub_state) =
     Response 200 (Some \<lparr>successful = 0, failed = 1, skipped = 0, total_count = 1,
       details = [\<lparr>r_emailId = ''e1'', r_success = False,
                   r_message = ''Account error: Failed to obtain Google access token'',
                   r_retries = None\<rparr>]\<rparr>) \<and>
   fst (POST_unsubscribe
      (example_unsub_env [(''List-Unsubscribe'', ''<https://example.com/u/1>'')] False True)
      (Body (IdList [''e1''])) initial_unsub_state) = Response 500 None"
  by (simp add: unsub_example_defs post_defs chunks.simps [of "[''e1'']"] chunks.simps [of "[]"])

lemma isValid_rejects:
  "\<not> isValid ''javascript:alert(1)'' \<and>
   \<not> isValid ''data:text/html,<script>alert(1)</script>'' \<and>
   \<not> isValid ''file:///etc/passwd'' \<and>
   \<not> isValid (''vbscript:msgbox('' @ [CHR 0x22] @ ''XSS'' @ [CHR 0x22] @ '')'')"
  by (simp add: isValid_def)

text \<open>
  Claim C10, as amended.  The endpoint extracts no link and applies no filter: the link
  recorded with an attempt is the raw value of the message's \<open>List-Unsubscribe\<close> header,
  whatever its scheme, and null when the header is absent or its value empty.  The link is
  recorded only: the one thing an attempt does at Gmail is to change a label of the message.
  The check of the test suite (the text starts with \<open>http://\<close> or \<open>https://\<close>) rejects
  the four dangerous URLs of the test.
\<close>

theorem recorded_link_raw_header:
  "(\<forall>headers. messages_get env email retries = Message (Some headers) \<and>
       \<not> log_insert_fails env email retries \<longrightarrow>
       (\<exists>row. attempts (snd (try_unsubscribe env email retries s)) = attempts s @ [row] \<and>
          a_link row =
            (case find_list_unsubscribe headers of
               None \<Rightarrow> None
             | Some (name, v) \<Rightarrow> if v = [] then None else Some v))) \<and>
   gmail_actions (snd (try_unsubscribe env email retries s)) \<in>
     {gmail_actions s,
      gmail_actions s @ [RemoveLabel (u_gmail_message_id email) ''UNSUBSCRIBE''],
      gmail_actions s @ [AddLabel (u_gmail_message_id email) ''SPAM'']} \<and>
   \<not> isValid ''javascript:alert(1)'' \<and>
   \<not> isValid ''data:text/html,<script>alert(1)</script>'' \<and>
   \<not> isValid ''file:///etc/passwd'' \<and>
   \<not> isValid (''vbscript:msgbox('' @ [CHR 0x22] @ ''XSS'' @ [CHR 0x22] @ '')'')"
proof -
  have A: "\<exists>row. attempts (snd (try_unsubscribe env email retries s)) = attempts s @ [row] \<and>
          a_link row =
            (case find_list_unsubscribe headers of
               None \<Rightarrow> None
             | Some (name, v) \<Rightarrow> if v = [] then None else Some v)"
    if "messages_get env email retries = Message (Some headers)"
       "\<not> log_insert_fails env email retries" for headers
    using that
    by (cases "messages_modify env email retries")
       (auto simp: try_unsubscribe_def Let_def link_of_def pending_attempt_def split: option.splits)
  have B: "gmail_actions (snd (try_unsubscribe env email retries s)) \<in>
     {gmail_actions s,
      gmail_actions s @ [RemoveLabel (u_gmail_message_id email) ''UNSUBSCRIBE''],
      gmail_actions s @ [AddLabel (u_gmail_message_id email) ''SPAM'']}"
    by (auto simp: try_unsubscribe_def Let_def split: gmail_message.splits option.splits)
  from A B isValid_rejects show ?thesis by blast
qed

text \<open>The theorem at a message whose header holds an https URL in angle brackets.\<close>

theorem recorded_link_raw_header_witness:
  "(\<exists>row. attempts (snd (try_unsubscribe
        (example_unsub_env [(''List-Unsubscribe'', ''<https://example.com/u/1>'')] False False)
        (example_email ''e1'') 0 initial_unsub_state)) = [row] \<and>
      a_link row = Some ''<https://example.com/u/1>'')"
proof -
  let ?env = "example_unsub_env [(''List-Unsubscribe'', ''<https://example.com/u/1>'')] False False"
  have h1: "messages_get ?env (example_email ''e1'') 0 =
      Message (Some (Some [(''List-Unsubscribe'', ''<https://example.com/u/1>'')]))"
    by (simp add: example_unsub_env_def)
  have h2: "\<not> log_insert_fails ?env (example_email ''e1'') 0"
    by (simp add: example_unsub_env_def)
  have h3: "find_list_unsubscribe (Some [(''List-Unsubscribe'', ''<https://example.com/u/1>'')])
      = Some (''List-Unsubscribe'', ''<https://example.com/u/1>'')"
    by (simp add: find_list_unsubscribe_def lower_code_def)
  from recorded_link_raw_header [of ?env "example_email ''e1''" 0 initial_unsub_state] h1 h2
  have "\<exists>row. attempts (snd (try_unsubscribe ?env (example_email ''e1'') 0 initial_unsub_state))
          = attempts initial_unsub_state @ [row] \<and>
          a_link row =
            (case find_list_unsubscribe (Some [(''List-Unsubscribe'', ''<https://example.com/u/1>'')]) of
               None \<Rightarrow> None
             | Some (name, v) \<Rightarrow> if v = [] then None else Some v)"
    by blast
  with h3 show ?thesis by (simp add: initial_unsub_state_def)
qed

text \<open>
  Claim C10 as stated fails: for a message whose \<open>List-Unsubscribe\<close> header is
  \<open>javascript:alert(1)\<close>, that text is recorded as the attempt's link.
\<close>

theorem security_filter_counterexample:
  "map a_link (attempts (snd (unsubscribeEmail
      (example_unsub_env [(''List-Unsubscribe'', ''javascript:alert(1)'')] False False)
      (example_email ''e1'') initial_unsub_state))) = [Some ''javascript:alert(1)''] \<and>
   \<not> isValid ''javascript:alert(1)''"
  by (simp add: example_unsub_env_def example_email_def initial_unsub_state_def
      unsubscribeEmail_def try_unsubscribe_def find_list_unsubscribe_def
      link_of_def pending_attempt_def MAX_RETRIES_def lower_code_def
      unsubscribe_loop.simps [of _ _ 0] Let_def isValid_def)

end
